theory Spec2Isabelle
  imports Main "HOL-Library.Sublist" "HOL-Library.AList"
begin

section \<open>Python strings\<close>

text \<open>
  A Python \<open>str\<close> is modelled as a \<open>string\<close>: each \<open>char\<close> stands for one code point
  below 256, so the pound sign U+00A3 is the single character \<open>CHR 0xA3\<close>.
\<close>

text \<open>
  \<open>s.split(sep)\<close> for a non-empty separator: the pieces of \<open>s\<close> between the
  non-overlapping occurrences of \<open>sep\<close>, found from the left. The result always has at
  least one piece. Python raises ValueError on an empty separator; every call of the
  source passes a non-empty literal, and the model then never finds a match.
\<close>

function py_split :: "string \<Rightarrow> string \<Rightarrow> string list" where
  "py_split [] sep = [[]]"
| "py_split (c # cs) sep =
     (if sep \<noteq> [] \<and> prefix sep (c # cs)
      then [] # py_split (drop (length sep) (c # cs)) sep
      else (case py_split cs sep of
              [] \<Rightarrow> [[c]]
            | p # ps \<Rightarrow> (c # p) # ps))"
  by pat_completeness auto
termination
  by (relation "measure (\<lambda>(s, sep). length s)") auto

text \<open>
  \<open>s.replace(old, new)\<close>: every non-overlapping occurrence of \<open>old\<close>, from the left,
  becomes \<open>new\<close>. With an empty \<open>old\<close> Python inserts \<open>new\<close> before every character
  and at the end.
\<close>

function py_replace :: "string \<Rightarrow> string \<Rightarrow> string \<Rightarrow> string" where
  "py_replace [] old new = (if old = [] then new else [])"
| "py_replace (c # cs) old new =
     (if old = [] then new @ c # py_replace cs old new
      else if prefix old (c # cs)
      then new @ py_replace (drop (length old) (c # cs)) old new
      else c # py_replace cs old new)"
  by pat_completeness auto
termination
  by (relation "measure (\<lambda>(s, old, new). length s)") auto

text \<open>\<open>str.isspace\<close> on the code points below 256.\<close>

definition isspace :: "char \<Rightarrow> bool" where
  "isspace c \<longleftrightarrow> c \<in> set [CHR 0x09, CHR 0x0A, CHR 0x0B, CHR 0x0C, CHR 0x0D,
     CHR 0x1C, CHR 0x1D, CHR 0x1E, CHR 0x1F, CHR 0x20, CHR 0x85, CHR 0xA0]"

text \<open>\<open>s.strip()\<close>: leading and trailing whitespace removed.\<close>

definition py_strip :: "string \<Rightarrow> string" where
  "py_strip s = rev (dropWhile isspace (rev (dropWhile isspace s)))"

section \<open>Exceptions and indexing\<close>

datatype exn =
    IndexError
  | AttributeError
  | NameError string
  | ValueError
  | KeyError string
  | RequestError string

text \<open>\<open>xs[i]\<close> for a non-negative literal index: IndexError when out of range.\<close>

definition item :: "'a list \<Rightarrow> nat \<Rightarrow> exn + 'a" where
  "item xs i = (if i < length xs then Inr (xs ! i) else Inl IndexError)"

section \<open>Markers of the detail payload\<close>

definition dq :: char where
  "dq = CHR 0x22"

definition incode_marker :: string where
  "incode_marker = dq # ''incode'' @ [dq] @ '':'' @ [dq]"

definition outcode_marker :: string where
  "outcode_marker = dq # ''outcode'' @ [dq] @ '':'' @ [dq]"

definition latitude_marker :: string where
  "latitude_marker = dq # ''latitude'' @ [dq] @ '': ''"

definition longitude_marker :: string where
  "longitude_marker = dq # ''longitude'' @ [dq] @ '': ''"

definition acornType_marker :: string where
  "acornType_marker = dq # ''acornType'' @ [dq] @ '':''"

definition propertyType_marker :: string where
  "propertyType_marker = dq # ''propertyType'' @ [dq] @ '':'' @ [dq]"

section \<open>Data model\<close>

text \<open>
  A scalar held in a dictionary or a table cell. The type \<open>'f\<close> stands for Python's
  floating-point numbers, which are not interpreted; \<open>NaN\<close> is the missing-value marker
  \<open>numpy.nan\<close>.
\<close>

datatype 'f cell = StrV string | IntV int | FloatV 'f | NaN

text \<open>
  One entry of \<open>listings.regular\<close> in the search reply, with the fields the script reads:
  \<open>listing['listingId']\<close>, \<open>listing['address']\<close>, \<open>listing['price']\<close>,
  \<open>listing['listingUris']['detail']\<close> and \<open>listing['features']\<close>, a list of
  \<open>iconId\<close>/\<open>content\<close> pairs.
\<close>

record 'f listing =
  listingId :: string
  address :: string
  price :: string
  detail :: string
  features :: "(string \<times> 'f cell) list"

text \<open>
  A Python \<open>dict\<close> with string keys is an association list in insertion order;
  \<open>d[k] = v\<close> is \<open>AList.update k v d\<close>, which overwrites in place or appends.
\<close>

type_synonym 'f pydict = "(string \<times> 'f cell) list"

text \<open>
  \<open>dict2\<close>: listing identifier to the one-row frame \<open>pd.DataFrame(dict1, index=[0])\<close>,
  whose column labels and cells are the keys and values of \<open>dict1\<close>.
\<close>

type_synonym 'f dataset = "(string \<times> 'f pydict) list"

text \<open>What one call of \<open>requests.get\<close> does: raise, or return a response.\<close>

datatype attempt = Raises exn | Responds int string

text \<open>
  What lies outside the script: the builtins \<open>float\<close> and \<open>int\<close> (\<open>None\<close> where they
  raise ValueError), BeautifulSoup (\<open>features_section t\<close> is the \<open>.text\<close> of the first
  \<open>section\<close> with \<open>data-testid="page_features_section"\<close> of the markup \<open>t\<close>, \<open>None\<close> where
  \<open>find\<close> returns \<open>None\<close>), the numeric parser of pandas, the network, the clock, and
  the module's global namespace at run time.
\<close>

record 'f env =
  float_of :: "string \<Rightarrow> 'f option"
  int_of :: "string \<Rightarrow> int option"
  features_section :: "string \<Rightarrow> string option"
  to_numeric :: "string \<Rightarrow> int option"
  float_to_int :: "'f \<Rightarrow> int"
  params_bound :: bool
  http_get :: "nat \<Rightarrow> 'f cell \<Rightarrow> attempt"
  search_reply :: "nat \<Rightarrow> string \<Rightarrow> nat \<Rightarrow> exn + 'f listing list option"
  today :: string

section \<open>Field extraction (\<open>parse_listing\<close>)\<close>

definition bind :: "exn + 'a \<Rightarrow> ('a \<Rightarrow> exn + 'b) \<Rightarrow> exn + 'b" where
  "bind m f = (case m of Inl e \<Rightarrow> Inl e | Inr x \<Rightarrow> f x)"

definition py_float :: "'f env \<Rightarrow> string \<Rightarrow> exn + 'f" where
  "py_float E s = (case float_of E s of None \<Rightarrow> Inl ValueError | Some x \<Rightarrow> Inr x)"

definition py_int :: "'f env \<Rightarrow> string \<Rightarrow> exn + int" where
  "py_int E s = (case int_of E s of None \<Rightarrow> Inl ValueError | Some n \<Rightarrow> Inr n)"

text \<open>The body of the first \<open>try\<close>: incode, outcode, and the postcode joined from them.\<close>

definition postcode_try :: "string \<Rightarrow> exn + string \<times> string \<times> string" where
  "postcode_try text =
     bind (item (py_split text incode_marker) 1) (\<lambda>a.
     bind (item (py_split a [dq]) 0) (\<lambda>postcode_district.
     bind (item (py_split text outcode_marker) 1) (\<lambda>b.
     bind (item (py_split b [dq]) 0) (\<lambda>outcode.
     Inr (outcode @ '' '' @ postcode_district, postcode_district, outcode)))))"

text \<open>The first \<open>try\<close>/\<open>except\<close>: (postcode, postcode_district, outcode).\<close>

definition extract_postcode :: "string \<Rightarrow> string \<times> string \<times> string" where
  "extract_postcode text =
     (case postcode_try text of Inl e \<Rightarrow> ([], [], []) | Inr r \<Rightarrow> r)"

definition geo_try :: "'f env \<Rightarrow> string \<Rightarrow> exn + 'f \<times> 'f" where
  "geo_try E text =
     bind (item (py_split text latitude_marker) 1) (\<lambda>a.
     bind (item (py_split a '','') 0) (\<lambda>a0.
     bind (py_float E (py_strip a0)) (\<lambda>lat.
     bind (item (py_split text longitude_marker) 1) (\<lambda>b.
     bind (item (py_split b [CHR 0x0A]) 0) (\<lambda>b0.
     bind (py_float E (py_strip b0)) (\<lambda>lon.
     Inr (lat, lon)))))))"

text \<open>The second \<open>try\<close>/\<open>except\<close>: (lat, lon).\<close>

definition extract_geo :: "'f env \<Rightarrow> string \<Rightarrow> 'f cell \<times> 'f cell" where
  "extract_geo E text =
     (case geo_try E text of
        Inl e \<Rightarrow> (StrV [], StrV [])
      | Inr (lat, lon) \<Rightarrow> (FloatV lat, FloatV lon))"

text \<open>The third \<open>try\<close>/\<open>except\<close>: acorn_type.\<close>

definition extract_acorn :: "'f env \<Rightarrow> string \<Rightarrow> 'f cell" where
  "extract_acorn E text =
     (case bind (item (py_split text acornType_marker) 1) (\<lambda>a.
           bind (item (py_split a '','') 0) (\<lambda>a0. py_int E a0)) of
        Inl e \<Rightarrow> StrV []
      | Inr n \<Rightarrow> IntV n)"

text \<open>
  \<open>s1.find('section', ...).text.strip()\<close>, outside any \<open>try\<close>: when \<open>find\<close> returns
  \<open>None\<close>, reading \<open>.text\<close> raises AttributeError.
\<close>

definition extract_description :: "'f env \<Rightarrow> string \<Rightarrow> exn + string" where
  "extract_description E text =
     (case features_section E text of
        None \<Rightarrow> Inl AttributeError
      | Some t \<Rightarrow> Inr (py_strip t))"

definition extract_property_type :: "string \<Rightarrow> exn + string" where
  "extract_property_type text =
     bind (item (py_split text propertyType_marker) 1) (\<lambda>a.
     item (py_split a [dq]) 0)"

text \<open>
  \<open>parse_listing(response, dict1, listing, dict2)\<close> on \<open>response.text\<close>; the result is
  the updated \<open>dict2\<close>, or the exception that leaves the function.
\<close>

definition parse_listing ::
  "'f env \<Rightarrow> string \<Rightarrow> 'f pydict \<Rightarrow> 'f listing \<Rightarrow> 'f dataset \<Rightarrow> exn + 'f dataset" where
  "parse_listing E text dict1 listing dict2 =
     (case extract_postcode text of (postcode, postcode_district, outcode) \<Rightarrow>
      case extract_geo E text of (lat, lon) \<Rightarrow>
      let acorn_type = extract_acorn E text in
      bind (extract_description E text) (\<lambda>description.
      bind (extract_property_type text) (\<lambda>property_type.
      Inr (AList.update (listingId listing)
        (AList.update ''description'' (StrV description)
        (AList.update ''longitude'' lon
        (AList.update ''latitude'' lat
        (AList.update ''price'' (StrV (price listing))
        (AList.update ''display_address'' (StrV (py_replace (address listing) postcode outcode))
        (AList.update ''acorn_type'' acorn_type
        (AList.update ''postcode_district'' (StrV postcode_district)
        (AList.update ''outcode'' (StrV outcode)
        (AList.update ''postcode'' (StrV postcode)
        (AList.update ''property_type'' (StrV property_type) dict1))))))))))
        dict2))))"

text \<open>\<open>d[k]\<close> read from a frame, \<open>None\<close> where the key is missing.\<close>

definition field :: "'f pydict \<Rightarrow> string \<Rightarrow> 'f cell option" where
  "field d k = map_of d k"

section \<open>Effects\<close>

text \<open>
  What the script does to the outside, in order: lines printed, sleeps, the two kinds of
  network call with what came back, and the spreadsheet written at the end.
\<close>

datatype 'f event =
    Print_error string exn
  | Print_cell "'f cell"
  | Print_status int
  | Print_page nat
  | Print_text string
  | Print_exn exn
  | Sleep nat
  | Get "'f cell" attempt
  | Post string nat "exn + 'f listing list option"
  | Write_stdout string
  | To_excel "'f pydict list"

text \<open>
  The state threaded through \<open>main\<close>: the dictionary \<open>dict2\<close>, the number of network
  calls made so far (the environment answers the \<open>n\<close>-th call), and the effects so far.
\<close>

record 'f state =
  dict2 :: "'f dataset"
  clock :: nat
  log :: "'f event list"

definition emit :: "'f event list \<Rightarrow> 'f state \<Rightarrow> 'f state" where
  "emit evs st = st\<lparr>log := log st @ evs\<rparr>"

section \<open>Search pages (\<open>get_page_listings\<close>)\<close>

text \<open>
  \<open>search_reply E n property_type page_num\<close> is what
  \<open>get_response(json_data)['data']['searchResults']['listings']['regular']\<close> evaluates to
  when the request is the \<open>n\<close>-th network call: an exception raised on the way, or the
  value found (\<open>None\<close> for a JSON null). Any exception is printed and turned into \<open>None\<close>.
\<close>

definition get_page_listings ::
  "'f env \<Rightarrow> nat \<Rightarrow> string \<Rightarrow> 'f state \<Rightarrow> 'f listing list option \<times> 'f state" where
  "get_page_listings E page_num property_type st =
     (let r = search_reply E (clock st) property_type page_num;
          st1 = emit [Post property_type page_num r] (st\<lparr>clock := Suc (clock st)\<rparr>)
      in case r of
           Inr listings \<Rightarrow> (listings, st1)
         | Inl e \<Rightarrow> (None, emit [Print_error ''Error occurred during requests.post: '' e] st1))"

section \<open>Detail pages (\<open>request_listing_data\<close>)\<close>

text \<open>\<open>dict1\<close> before the loop: the url, then one entry per feature tag.\<close>

definition initial_dict1 :: "'f listing \<Rightarrow> 'f pydict" where
  "initial_dict1 listing =
     foldl (\<lambda>d i. AList.update (fst i) (snd i) d)
       [(''url'', StrV (''https://www.zoopla.co.uk'' @ detail listing))]
       (features listing)"

text \<open>
  One pass through the \<open>try\<close> block. The name \<open>params\<close> is read from the module's
  globals; the source file binds it nowhere (the assignment is commented out), so unless
  something else has bound it the lookup raises NameError before any request is made.
  After a response, the status is printed and the latitude marker is looked for.
\<close>

definition try_request ::
  "'f env \<Rightarrow> 'f cell \<Rightarrow> 'f state \<Rightarrow> (exn + int \<times> string) \<times> 'f state" where
  "try_request E ln st =
     (if \<not> params_bound E then (Inl (NameError ''params''), st)
      else
        let a = http_get E (clock st) ln;
            st1 = emit [Get ln a] (st\<lparr>clock := Suc (clock st)\<rparr>)
        in case a of
             Raises e \<Rightarrow> (Inl e, st1)
           | Responds code text \<Rightarrow>
               let st2 = emit [Print_status code] st1
               in (case bind (item (py_split text latitude_marker) 1)
                          (\<lambda>a. item (py_split a '','') 0) of
                     Inl e \<Rightarrow> (Inl e, st2)
                   | Inr v \<Rightarrow> (Inr (code, text), st2)))"

text \<open>The \<open>except\<close> block: the error and the url are printed, then a sleep of 30.\<close>

definition except_block :: "'f cell \<Rightarrow> exn \<Rightarrow> 'f state \<Rightarrow> 'f state" where
  "except_block ln e st =
     emit [Print_error ''Error occurred during requests.get: '' e, Print_cell ln, Sleep 30] st"

text \<open>
  How a piece of the script ends, with the state it ends in: it returns a value, an
  exception leaves it, or it is still running when the bound on loop iterations is used
  up (the state is then the one reached so far).
\<close>

datatype ('a, 'f) outcome =
    Returned 'a "'f state"
  | Raised exn "'f state"
  | Running "'f state"

definition state_of :: "('a, 'f) outcome \<Rightarrow> 'f state" where
  "state_of r = (case r of Returned x st \<Rightarrow> st | Raised e st \<Rightarrow> st | Running st \<Rightarrow> st)"

text \<open>The \<open>while True\<close> loop, with a bound on the number of iterations.\<close>

fun request_loop ::
  "'f env \<Rightarrow> nat \<Rightarrow> 'f cell \<Rightarrow> 'f state \<Rightarrow> (int \<times> string, 'f) outcome" where
  "request_loop E 0 ln st = Running st"
| "request_loop E (Suc n) ln st =
     (case try_request E ln st of
        (Inr response, st1) \<Rightarrow> Returned response st1
      | (Inl e, st1) \<Rightarrow> request_loop E n ln (except_block ln e st1))"

text \<open>
  What one failed iteration leaves in the log when the request was made with outcome
  \<open>a\<close>: the request, the status line if a response came, then the \<open>except\<close> block. A
  response fails the iteration when it lacks the latitude marker (IndexError).
\<close>

definition failed_iteration :: "'f cell \<Rightarrow> attempt \<Rightarrow> 'f event list" where
  "failed_iteration ln a =
     (case a of
        Raises e \<Rightarrow>
          [Get ln a, Print_error ''Error occurred during requests.get: '' e,
           Print_cell ln, Sleep 30]
      | Responds code text \<Rightarrow>
          [Get ln a, Print_status code,
           Print_error ''Error occurred during requests.get: '' IndexError,
           Print_cell ln, Sleep 30])"

text \<open>An outcome that ends the loop: a response that holds the latitude marker.\<close>

definition accepted :: "attempt \<Rightarrow> bool" where
  "accepted a = (case a of Raises e \<Rightarrow> False | Responds code text \<Rightarrow> sublist latitude_marker text)"

text \<open>\<open>request_listing_data(listing)\<close>: the response and \<open>dict1\<close>.\<close>

definition request_listing_data ::
  "'f env \<Rightarrow> nat \<Rightarrow> 'f listing \<Rightarrow> 'f state \<Rightarrow> ((int \<times> string) \<times> 'f pydict, 'f) outcome" where
  "request_listing_data E n listing st =
     (let dict1 = initial_dict1 listing
      in case map_of dict1 ''url'' of
           None \<Rightarrow> Raised (KeyError ''url'') st
         | Some ln \<Rightarrow>
             (case request_loop E n ln st of
                Returned response st1 \<Rightarrow> Returned (response, dict1) st1
              | Raised e st1 \<Rightarrow> Raised e st1
              | Running st1 \<Rightarrow> Running st1))"

section \<open>The final table (\<open>clean_property_data\<close>)\<close>

text \<open>
  A DataFrame is a list of rows; a row lists its cells with their column labels, in
  column order, and all rows of a table have the same labels.
\<close>

text \<open>The first occurrence of each element, in order.\<close>

definition keep_first :: "'a list \<Rightarrow> 'a list" where
  "keep_first xs = rev (remdups (rev xs))"

text \<open>
  \<open>pd.concat(frames, sort=False)\<close> of one-row frames: the columns are the union of the
  frames' columns in order of first appearance, a cell missing from a frame is NaN, and
  an empty sequence of frames raises ValueError. Every cell is kept as it is. That is
  what pandas does in a column that holds a string (dtype object); in a column of
  numbers only, pandas gives all cells one dtype, so that an integer is turned into a
  float once a cell of the column is missing. That re-typing of numeric cells is not
  modelled, and the properties below that name the value of a cell carried through the
  table are stated for string cells.
\<close>

definition reindex :: "string list \<Rightarrow> 'f pydict \<Rightarrow> 'f pydict" where
  "reindex cols d = map (\<lambda>c. (c, case map_of d c of Some v \<Rightarrow> v | None \<Rightarrow> NaN)) cols"

definition pd_concat :: "'f pydict list \<Rightarrow> exn + 'f pydict list" where
  "pd_concat frames =
     (if frames = [] then Inl ValueError
      else Inr (map (reindex (keep_first (concat (map (map fst) frames)))) frames))"

text \<open>\<open>df[name] = v\<close> on one row: the column is overwritten, or appended when new.\<close>

definition assign :: "string \<Rightarrow> 'f cell \<Rightarrow> 'f pydict \<Rightarrow> 'f pydict" where
  "assign name v row =
     (if name \<in> set (map fst row)
      then map (\<lambda>p. if fst p = name then (name, v) else p) row
      else row @ [(name, v)])"

text \<open>The cells of a row under a column label (one cell unless labels repeat).\<close>

definition cells :: "'f pydict \<Rightarrow> string \<Rightarrow> 'f cell list" where
  "cells row name = map snd (filter (\<lambda>p. fst p = name) row)"

text \<open>The column labels of a table, read from its first row.\<close>

definition columns :: "'f pydict list \<Rightarrow> string list" where
  "columns df = (case df of [] \<Rightarrow> [] | row # rows \<Rightarrow> map fst row)"

text \<open>\<open>.replace("[\<pounds>,]", "", regex=True)\<close> on one string: pound signs and commas go.\<close>

definition strip_pound_comma :: "string \<Rightarrow> string" where
  "strip_pound_comma s = filter (\<lambda>c. c \<noteq> CHR 0xA3 \<and> c \<noteq> CHR '','') s"

text \<open>
  \<open>pd.to_numeric(..., errors='coerce').fillna(0).astype('int')\<close> on one cell. The parser
  of pandas is the parameter \<open>to_numeric\<close>: the integer a string stands for (after the
  cast to int), or \<open>None\<close> where pandas coerces the string to NaN. A string that
  pandas reads as an infinite number makes the cast raise; the parameter has no value
  for that case, which the model leaves out.
\<close>

definition price_cell :: "'f env \<Rightarrow> 'f cell \<Rightarrow> 'f cell" where
  "price_cell E c =
     (case c of
        StrV s \<Rightarrow> (case to_numeric E (strip_pound_comma s) of
                      None \<Rightarrow> IntV 0
                    | Some n \<Rightarrow> IntV n)
      | IntV n \<Rightarrow> IntV n
      | FloatV x \<Rightarrow> IntV (float_to_int E x)
      | NaN \<Rightarrow> IntV 0)"

definition normalize_price :: "'f env \<Rightarrow> 'f pydict list \<Rightarrow> exn + 'f pydict list" where
  "normalize_price E df =
     (if ''price'' \<notin> set (columns df) then Inl (KeyError ''price'')
      else Inr (map (map (\<lambda>p. if fst p = ''price'' then (fst p, price_cell E (snd p)) else p)) df))"

definition rename_column :: "string \<Rightarrow> string" where
  "rename_column c =
     (if c = ''chair'' then ''num_recepts''
      else if c = ''bed'' then ''num_beds''
      else if c = ''bath'' then ''num_baths''
      else c)"

definition rename_row :: "'f pydict \<Rightarrow> 'f pydict" where
  "rename_row row = map (\<lambda>p. (rename_column (fst p), snd p)) row"

text \<open>\<open>df.replace('', np.nan)\<close> on one row.\<close>

definition replace_empty :: "'f pydict \<Rightarrow> 'f pydict" where
  "replace_empty row = map (\<lambda>p. (fst p, if snd p = StrV [] then NaN else snd p)) row"

definition final_columns :: "string list" where
  "final_columns =
     [''property_type'', ''price'', ''postcode_district'', ''num_baths'', ''postcode'',
      ''outcode'', ''acorn_type'', ''display_address'', ''num_recepts'', ''num_beds'',
      ''url'', ''listing_condition'', ''latitude'', ''longitude'', ''description'']"

text \<open>
  \<open>df[[...]]\<close>: the listed columns in the listed order; KeyError when a label is not a
  column of the table.
\<close>

definition select_columns :: "string list \<Rightarrow> 'f pydict list \<Rightarrow> exn + 'f pydict list" where
  "select_columns names df =
     (case filter (\<lambda>w. w \<notin> set (columns df)) names of
        w # ws \<Rightarrow> Inl (KeyError w)
      | [] \<Rightarrow> Inr (map (\<lambda>row. concat (map (\<lambda>w. filter (\<lambda>p. fst p = w) row) names)) df))"

text \<open>
  \<open>clean_property_data(dict2, dt)\<close>: the table handed to \<open>to_excel\<close>, or the exception
  raised on the way.
\<close>

definition clean_property_data ::
  "'f env \<Rightarrow> 'f dataset \<Rightarrow> string \<Rightarrow> exn + 'f pydict list" where
  "clean_property_data E d2 dt =
     bind (pd_concat (map snd d2)) (\<lambda>df.
     bind (normalize_price E (map (assign ''listing_condition'' (StrV ''pre-owned'')) df)) (\<lambda>df.
     bind (select_columns final_columns
             (map replace_empty (map rename_row (map (assign ''listing_id'' NaN) df)))) (\<lambda>df.
     Inr (keep_first (map (assign ''date'' (StrV dt)) df)))))"


section \<open>The orchestrator (\<open>main\<close>)\<close>

text \<open>The \<open>for listing in listings\<close> loop.\<close>

fun process_listings ::
  "'f env \<Rightarrow> nat \<Rightarrow> 'f listing list \<Rightarrow> 'f state \<Rightarrow> (unit, 'f) outcome" where
  "process_listings E n [] st = Returned () st"
| "process_listings E n (listing # listings) st =
     (case request_listing_data E n listing st of
        Running st1 \<Rightarrow> Running st1
      | Raised e st1 \<Rightarrow> Raised e st1
      | Returned (response, dict1) st1 \<Rightarrow>
          (case parse_listing E (snd response) dict1 listing (dict2 st1) of
             Inl e \<Rightarrow> Raised e st1
           | Inr d2 \<Rightarrow>
               process_listings E n listings (emit [Write_stdout ''.''] (st1\<lparr>dict2 := d2\<rparr>))))"

text \<open>
  The \<open>while True\<close> loop over the pages of one property type, bounded by \<open>m\<close>
  iterations.
\<close>

fun page_loop ::
  "'f env \<Rightarrow> nat \<Rightarrow> nat \<Rightarrow> string \<Rightarrow> nat \<Rightarrow> 'f state \<Rightarrow> (unit, 'f) outcome" where
  "page_loop E n 0 property_type page_num st = Running st"
| "page_loop E n (Suc m) property_type page_num st =
     (case get_page_listings E page_num property_type st of (listings, st1) \<Rightarrow>
      let st2 = emit [Print_page page_num] st1
      in if listings = None \<or> listings = Some []
         then Returned () (emit [Print_text ''Completed.''] st2)
         else (case process_listings E n (the listings) st2 of
                 Running st3 \<Rightarrow> Running st3
               | Raised e st3 \<Rightarrow> Raised e st3
               | Returned u st3 \<Rightarrow> page_loop E n m property_type (Suc page_num) st3))"

definition property_types :: "string list" where
  "property_types =
     [''farms_land'', ''semi_detached'', ''flats'', ''detached'', ''terraced'', ''bungalow'',
      ''park_home'']"

text \<open>The \<open>for property_type in property_types\<close> loop.\<close>

fun types_loop ::
  "'f env \<Rightarrow> nat \<Rightarrow> string list \<Rightarrow> 'f state \<Rightarrow> (unit, 'f) outcome" where
  "types_loop E n [] st = Returned () st"
| "types_loop E n (property_type # rest) st =
     (case page_loop E n n property_type 1 st of
        Running st1 \<Rightarrow> Running st1
      | Raised e st1 \<Rightarrow> Raised e st1
      | Returned u st1 \<Rightarrow> types_loop E n rest st1)"

definition initial_state :: "'f state" where
  "initial_state = \<lparr>dict2 = [], clock = 0, log = []\<rparr>"

text \<open>The body of the \<open>try\<close> in \<open>main\<close>.\<close>

definition main_try :: "'f env \<Rightarrow> nat \<Rightarrow> (unit, 'f) outcome" where
  "main_try E n =
     (case types_loop E n property_types initial_state of
        Running st \<Rightarrow> Running st
      | Raised e st \<Rightarrow> Raised e st
      | Returned u st \<Rightarrow>
          (case clean_property_data E (dict2 st) (today E) of
             Inl e \<Rightarrow> Raised e st
           | Inr df \<Rightarrow> Returned () (emit [To_excel df] st)))"

text \<open>
  \<open>main()\<close>. The handler prints the exception and then evaluates
  \<open>send_discord_notification(df, e)\<close>; the module defines no such function (nor \<open>df\<close>),
  so the call raises NameError, which leaves \<open>main\<close>. The bound \<open>n\<close> limits every
  \<open>while\<close> loop.
\<close>

definition main :: "'f env \<Rightarrow> nat \<Rightarrow> (unit, 'f) outcome" where
  "main E n =
     (case main_try E n of
        Running st \<Rightarrow> Running st
      | Returned u st \<Rightarrow> Returned () st
      | Raised e st \<Rightarrow>
          Raised (NameError ''send_discord_notification'') (emit [Print_exn e] st))"

section \<open>Reading the log\<close>

text \<open>
  A search reply that ends the pagination of its property type: \<open>get_page_listings\<close>
  gives \<open>None\<close> for it (an exception, or a null) or an empty list.
\<close>

definition ends_page :: "exn + 'f listing list option \<Rightarrow> bool" where
  "ends_page r = (case r of Inl e \<Rightarrow> True | Inr None \<Rightarrow> True | Inr (Some ls) \<Rightarrow> ls = [])"

text \<open>The search requests of a log, in order: property type and reply.\<close>

fun page_requests :: "'f event list \<Rightarrow> (string \<times> (exn + 'f listing list option)) list" where
  "page_requests [] = []"
| "page_requests (Post property_type page_num r # evs) = (property_type, r) # page_requests evs"
| "page_requests (ev # evs) = page_requests evs"

text \<open>No request for a property type comes after a reply that ended its pagination.\<close>

fun no_request_after_end :: "(string \<times> (exn + 'f listing list option)) list \<Rightarrow> bool" where
  "no_request_after_end [] = True"
| "no_request_after_end (q # qs) =
     ((ends_page (snd q) \<longrightarrow> fst q \<notin> set (map fst qs)) \<and> no_request_after_end qs)"

section \<open>A concrete environment for examples\<close>

text \<open>
  A detail payload carrying every marker, written as
  \<^verbatim>\<open>"outcode":"SW1A","incode":"1AA","latitude": 51.5,"longitude": -0.14<newline>"propertyType":"flat"\<close>.
\<close>

definition example_payload :: string where
  "example_payload =
     outcode_marker @ ''SW1A'' @ [dq] @ '','' @
     incode_marker @ ''1AA'' @ [dq] @ '','' @
     latitude_marker @ ''51.5,'' @
     longitude_marker @ ''-0.14'' @ [CHR 0x0A] @
     propertyType_marker @ ''flat'' @ [dq]"

text \<open>The same payload with the coordinates written as words.\<close>

definition example_payload_bad_geo :: string where
  "example_payload_bad_geo =
     outcode_marker @ ''SW1A'' @ [dq] @ '','' @
     incode_marker @ ''1AA'' @ [dq] @ '','' @
     latitude_marker @ ''north,'' @
     longitude_marker @ ''west'' @ [CHR 0x0A] @
     propertyType_marker @ ''flat'' @ [dq]"

text \<open>A payload with the property type and nothing else.\<close>

definition example_payload_bare :: string where
  "example_payload_bare = propertyType_marker @ ''flat'' @ [dq]"

definition is_digit :: "char \<Rightarrow> bool" where
  "is_digit c \<longleftrightarrow> c \<in> set ''0123456789''"

text \<open>The number written by a string of decimal digits.\<close>

definition digit_value :: "char \<Rightarrow> nat" where
  "digit_value c = of_char c - of_char CHR ''0''"

definition decimal_value :: "string \<Rightarrow> nat" where
  "decimal_value s = foldl (\<lambda>n c. 10 * n + digit_value c) 0 s"

text \<open>
  A numeric parser that accepts the non-empty strings of decimal digits, and a float
  parser that accepts digits around one decimal point, with an optional minus sign; the
  float is kept as the text that denotes it.
\<close>

definition decimal_numeric :: "string \<Rightarrow> int option" where
  "decimal_numeric s =
     (if s \<noteq> [] \<and> list_all is_digit s then Some (int (decimal_value s)) else None)"

definition decimal_float :: "string \<Rightarrow> string option" where
  "decimal_float s =
     (let u = (case s of [] \<Rightarrow> [] | c # cs \<Rightarrow> if c = CHR ''-'' then cs else s);
          a = takeWhile is_digit u;
          b = dropWhile is_digit u
      in if a \<noteq> [] \<and> (b = [] \<or> (hd b = CHR ''.'' \<and> list_all is_digit (tl b)))
         then Some s else None)"

definition example_env :: "string env" where
  "example_env =
     \<lparr> float_of = decimal_float,
       int_of = decimal_numeric,
       features_section = (\<lambda>t. Some ''  Two bedroom flat  ''),
       to_numeric = decimal_numeric,
       float_to_int = (\<lambda>x. 0),
       params_bound = True,
       http_get = (\<lambda>n u. Responds 200 example_payload),
       search_reply = (\<lambda>n t p. Inr (Some [])),
       today = ''2022-06-01'' \<rparr>"

definition example_listing :: "string listing" where
  "example_listing =
     \<lparr> listingId = ''61234567'',
       address = ''SW1A 1AA, London'',
       price = CHR 0xA3 # ''250,000'',
       detail = ''/for-sale/details/61234567/'',
       features = [(''bed'', StrV ''3''), (''bath'', StrV ''1''), (''chair'', StrV ''2'')] \<rparr>"









text \<open>
  The dataset after the example listing has been processed with the example payload, and
  the row the final table then has.
\<close>

definition example_dataset :: "string dataset" where
  "example_dataset =
     [(''61234567'',
       [(''url'', StrV ''https://www.zoopla.co.uk/for-sale/details/61234567/''),
        (''bed'', StrV ''3''), (''bath'', StrV ''1''), (''chair'', StrV ''2''),
        (''property_type'', StrV ''flat''),
        (''postcode'', StrV ''SW1A 1AA''),
        (''outcode'', StrV ''SW1A''),
        (''postcode_district'', StrV ''1AA''),
        (''acorn_type'', StrV []),
        (''display_address'', StrV ''SW1A, London''),
        (''price'', StrV (CHR 0xA3 # ''250,000'')),
        (''latitude'', FloatV ''51.5''),
        (''longitude'', FloatV ''-0.14''),
        (''description'', StrV ''Two bedroom flat'')])]"

definition example_row :: "string pydict" where
  "example_row =
     [(''property_type'', StrV ''flat''), (''price'', IntV 250000),
      (''postcode_district'', StrV ''1AA''), (''num_baths'', StrV ''1''),
      (''postcode'', StrV ''SW1A 1AA''), (''outcode'', StrV ''SW1A''),
      (''acorn_type'', NaN), (''display_address'', StrV ''SW1A, London''),
      (''num_recepts'', StrV ''2''), (''num_beds'', StrV ''3''),
      (''url'', StrV ''https://www.zoopla.co.uk/for-sale/details/61234567/''),
      (''listing_condition'', StrV ''pre-owned''),
      (''latitude'', FloatV ''51.5''), (''longitude'', FloatV ''-0.14''),
      (''description'', StrV ''Two bedroom flat''),
      (''date'', StrV ''2022-06-01'')]"

text \<open>
  A second listing, a search whose first page of farms and land holds both listings, and
  markup without the features section.
\<close>

definition example_listing_b :: "string listing" where
  "example_listing_b =
     \<lparr> listingId = ''61234568'',
       address = ''2 High Street, Leeds'',
       price = CHR 0xA3 # ''120,000'',
       detail = ''/for-sale/details/61234568/'',
       features = [] \<rparr>"

definition example_env_no_section :: "string env" where
  "example_env_no_section =
     example_env\<lparr>
       features_section := (\<lambda>t. None),
       search_reply := (\<lambda>n t p. if t = ''farms_land'' \<and> p = 1
                                then Inr (Some [example_listing, example_listing_b])
                                else Inr (Some []))\<rparr>"

text \<open>The state in which that run is when the first listing's description is looked for.\<close>

definition example_abort_state :: "string state" where
  "example_abort_state =
     \<lparr>dict2 = [], clock = 2,
      log = [Post ''farms_land'' 1 (Inr (Some [example_listing, example_listing_b])),
             Print_page 1,
             Get (StrV ''https://www.zoopla.co.uk/for-sale/details/61234567/'')
               (Responds 200 example_payload),
             Print_status 200]\<rparr>"

text \<open>The log of a run in which every search page is empty.\<close>

definition example_empty_run_log :: "string event list" where
  "example_empty_run_log =
     [Post ''farms_land'' 1 (Inr (Some [])), Print_page 1, Print_text ''Completed.'',
      Post ''semi_detached'' 1 (Inr (Some [])), Print_page 1, Print_text ''Completed.'',
      Post ''flats'' 1 (Inr (Some [])), Print_page 1, Print_text ''Completed.'',
      Post ''detached'' 1 (Inr (Some [])), Print_page 1, Print_text ''Completed.'',
      Post ''terraced'' 1 (Inr (Some [])), Print_page 1, Print_text ''Completed.'',
      Post ''bungalow'' 1 (Inr (Some [])), Print_page 1, Print_text ''Completed.'',
      Post ''park_home'' 1 (Inr (Some [])), Print_page 1, Print_text ''Completed.'',
      Print_exn ValueError]"


section \<open>Properties of the string operations\<close>

lemma py_split_nonempty: "py_split s sep \<noteq> []"
  by (induction s sep rule: py_split.induct) (auto split: list.splits)

lemma py_split_length: "sep \<noteq> [] \<Longrightarrow> 1 < length (py_split s sep) \<longleftrightarrow> sublist sep s"
  by (induction s sep rule: py_split.induct)
     (auto split: list.splits simp: sublist_Cons_right py_split_nonempty)

lemma item_split_0: "item (py_split s sep) 0 = Inr (hd (py_split s sep))"
  using py_split_nonempty [of s sep] by (cases "py_split s sep") (auto simp: item_def)

lemma hd_split_char: "hd (py_split s [c]) = takeWhile (\<lambda>x. x \<noteq> c) s"
  by (induction s) (auto split: list.splits simp: py_split_nonempty)

lemma item_split_1_present:
  "sep \<noteq> [] \<Longrightarrow> sublist sep s \<Longrightarrow> item (py_split s sep) (Suc 0) = Inr (py_split s sep ! Suc 0)"
  using py_split_length [of sep s] by (simp add: item_def)

lemma item_split_1_absent:
  "sep \<noteq> [] \<Longrightarrow> \<not> sublist sep s \<Longrightarrow> item (py_split s sep) (Suc 0) = Inl IndexError"
  using py_split_length [of sep s] by (simp add: item_def)

lemma prefix_first_occurrence:
  assumes "prefix sep (pre @ sep @ rest)" "pre \<noteq> []"
  shows "sublist sep (pre @ butlast sep)"
proof (cases "sep = []")
  case True then show ?thesis by simp
next
  case False
  have "length sep \<le> length (pre @ butlast sep)" using assms(2) False
    by (cases pre) auto
  moreover have "prefix (pre @ butlast sep) (pre @ sep @ rest)"
    by (simp add: butlast_conv_take take_is_prefix)
  ultimately have "prefix sep (pre @ butlast sep)"
    using assms(1) by (meson prefix_length_prefix)
  then show ?thesis by auto
qed

lemma py_split_first:
  "sep \<noteq> [] \<Longrightarrow> \<not> sublist sep (pre @ butlast sep) \<Longrightarrow>
     py_split (pre @ sep @ rest) sep = pre # py_split rest sep"
proof (induction pre)
  case Nil
  then show ?case by (cases sep) auto
next
  case (Cons c pre)
  have np: "\<not> prefix sep ((c # pre) @ sep @ rest)"
    using prefix_first_occurrence [of sep "c # pre" rest] Cons.prems(2) by blast
  have "\<not> sublist sep (pre @ butlast sep)"
    using Cons.prems(2) by (auto simp: sublist_Cons_right)
  with Cons.IH Cons.prems(1) have "py_split (pre @ sep @ rest) sep = pre # py_split rest sep"
    by simp
  with np show ?case by simp
qed

lemma py_replace_absent: "\<not> sublist old s \<Longrightarrow> py_replace s old new = s"
  by (induction s old new rule: py_replace.induct) (auto simp: sublist_Cons_right)

lemma py_replace_empty: "py_replace s [] [] = s"
  by (induction s) auto

lemma py_replace_first:
  "old \<noteq> [] \<Longrightarrow> \<not> sublist old (pre @ butlast old) \<Longrightarrow>
     py_replace (pre @ old @ rest) old new = pre @ new @ py_replace rest old new"
proof (induction pre)
  case Nil
  then show ?case by (cases old) auto
next
  case (Cons c pre)
  have np: "\<not> prefix old ((c # pre) @ old @ rest)"
    using prefix_first_occurrence [of old "c # pre" rest] Cons.prems(2) by blast
  have "\<not> sublist old (pre @ butlast old)"
    using Cons.prems(2) by (auto simp: sublist_Cons_right)
  with Cons.IH Cons.prems(1) have "py_replace (pre @ old @ rest) old new = pre @ new @ py_replace rest old new"
    by simp
  with np Cons.prems(1) show ?case by simp
qed

section \<open>Properties of the field extraction\<close>

lemma markers_nonempty:
  "incode_marker \<noteq> []" "outcode_marker \<noteq> []" "latitude_marker \<noteq> []"
  "longitude_marker \<noteq> []" "acornType_marker \<noteq> []" "propertyType_marker \<noteq> []"
  by (simp_all add: incode_marker_def outcode_marker_def latitude_marker_def
      longitude_marker_def acornType_marker_def propertyType_marker_def)

lemma takeWhile_hd_split:
  "hd sep = c \<Longrightarrow> c \<notin> set v \<Longrightarrow>
     takeWhile (\<lambda>x. x \<noteq> c) (hd (py_split (v @ c # rest) sep)) = v"
proof (induction v)
  case Nil
  then show ?case
    by (cases "py_split rest sep") (auto simp: py_split_nonempty)
next
  case (Cons a v)
  then have "\<not> (sep \<noteq> [] \<and> prefix sep (a # v @ c # rest))"
    by (cases sep) auto
  with Cons show ?case
    by (cases "py_split (v @ c # rest) sep") (auto simp: py_split_nonempty)
qed

lemma marker_value:
  assumes "sep \<noteq> []" "hd sep = c" "\<not> sublist sep (pre @ butlast sep)" "c \<notin> set v"
  shows "takeWhile (\<lambda>x. x \<noteq> c) (py_split (pre @ sep @ v @ c # rest) sep ! 1) = v"
proof -
  have "py_split (pre @ sep @ v @ c # rest) sep = pre # py_split (v @ c # rest) sep"
    using assms(1,3) by (rule py_split_first)
  moreover have "py_split (v @ c # rest) sep \<noteq> []" by (rule py_split_nonempty)
  ultimately have "py_split (pre @ sep @ v @ c # rest) sep ! 1 = hd (py_split (v @ c # rest) sep)"
    by (simp add: hd_conv_nth)
  then show ?thesis using takeWhile_hd_split [OF assms(2,4)] by simp
qed

lemma postcode_try_present:
  assumes "sublist incode_marker text" "sublist outcode_marker text"
  shows "postcode_try text =
    Inr (takeWhile (\<lambda>c. c \<noteq> dq) (py_split text outcode_marker ! 1) @ '' '' @
           takeWhile (\<lambda>c. c \<noteq> dq) (py_split text incode_marker ! 1),
         takeWhile (\<lambda>c. c \<noteq> dq) (py_split text incode_marker ! 1),
         takeWhile (\<lambda>c. c \<noteq> dq) (py_split text outcode_marker ! 1))"
  using assms
  by (simp add: postcode_try_def bind_def item_split_1_present markers_nonempty
      item_split_0 hd_split_char)

lemma postcode_try_absent:
  assumes "\<not> (sublist incode_marker text \<and> sublist outcode_marker text)"
  shows "postcode_try text = Inl IndexError"
proof (cases "sublist incode_marker text")
  case False
  then show ?thesis
    by (simp add: postcode_try_def bind_def item_split_1_absent markers_nonempty)
next
  case True
  with assms have "\<not> sublist outcode_marker text" by simp
  with True show ?thesis
    by (simp add: postcode_try_def bind_def item_split_1_absent item_split_1_present
        markers_nonempty item_split_0)
qed

lemma extract_property_type_Inr:
  "(\<exists>pt. extract_property_type text = Inr pt) \<longleftrightarrow> sublist propertyType_marker text"
  by (cases "sublist propertyType_marker text")
     (simp_all add: extract_property_type_def bind_def item_split_1_absent
        item_split_1_present markers_nonempty item_split_0)

lemma extract_description_Inr:
  "(\<exists>t. extract_description E text = Inr t) \<longleftrightarrow> features_section E text \<noteq> None"
  by (auto simp: extract_description_def split: option.splits)

lemma parse_listing_raises:
  "(\<exists>e. parse_listing E text dict1 l ds = Inl e) \<longleftrightarrow>
     features_section E text = None \<or> \<not> sublist propertyType_marker text"
proof -
  obtain p d oc where pc: "extract_postcode text = (p, d, oc)" by (cases "extract_postcode text")
  obtain lat lon where geo: "extract_geo E text = (lat, lon)" by (cases "extract_geo E text")
  show ?thesis
    using extract_property_type_Inr [of "text"] extract_description_Inr [of E "text"]
    by (cases "extract_description E text"; cases "extract_property_type text")
       (auto simp: parse_listing_def bind_def pc geo Let_def)
qed

lemma parse_listing_record:
  assumes "parse_listing E text dict1 l ds = Inr d2"
  shows "\<exists>r p d oc lat lon.
     map_of d2 (listingId l) = Some r \<and>
     extract_postcode text = (p, d, oc) \<and> extract_geo E text = (lat, lon) \<and>
     field r ''postcode'' = Some (StrV p) \<and>
     field r ''postcode_district'' = Some (StrV d) \<and>
     field r ''outcode'' = Some (StrV oc) \<and>
     field r ''latitude'' = Some lat \<and>
     field r ''longitude'' = Some lon \<and>
     field r ''price'' = Some (StrV (price l)) \<and>
     field r ''display_address'' = Some (StrV (py_replace (address l) p oc))"
proof -
  obtain p d oc where pc: "extract_postcode text = (p, d, oc)" by (cases "extract_postcode text")
  obtain lat lon where geo: "extract_geo E text = (lat, lon)" by (cases "extract_geo E text")
  show ?thesis
    using assms
    by (cases "extract_description E text"; cases "extract_property_type text")
       (auto simp: parse_listing_def bind_def pc geo Let_def field_def update_conv')
qed

lemma geo_try_cases:
  "geo_try E text =
    (if \<not> sublist latitude_marker text then Inl IndexError
     else (case float_of E (py_strip (takeWhile (\<lambda>c. c \<noteq> CHR '','') (py_split text latitude_marker ! 1))) of
       None \<Rightarrow> Inl ValueError
     | Some lat \<Rightarrow>
        (if \<not> sublist longitude_marker text then Inl IndexError
         else (case float_of E (py_strip (takeWhile (\<lambda>c. c \<noteq> CHR 0x0A) (py_split text longitude_marker ! 1))) of
            None \<Rightarrow> Inl ValueError
          | Some lon \<Rightarrow> Inr (lat, lon)))))"
  by (simp add: geo_try_def bind_def py_float_def item_split_1_absent item_split_1_present
      markers_nonempty item_split_0 hd_split_char split: option.splits)

lemma extract_geo_empty_iff:
  "extract_geo E text = (StrV [], StrV []) \<longleftrightarrow>
     \<not> sublist latitude_marker text \<or> \<not> sublist longitude_marker text \<or>
     float_of E (py_strip (takeWhile (\<lambda>c. c \<noteq> CHR '','') (py_split text latitude_marker ! 1))) = None \<or>
     float_of E (py_strip (takeWhile (\<lambda>c. c \<noteq> CHR 0x0A) (py_split text longitude_marker ! 1))) = None"
  by (auto simp: extract_geo_def geo_try_cases split: option.splits)

text \<open>
  C3. When the payload holds both the incode and the outcode marker, the postcode is the
  outcode, a space, and the district, each being the text from its marker up to the next
  double quote. When either marker is missing the three fields are empty strings. A
  record that \<open>parse_listing\<close> stores carries these three values, and whether
  \<open>parse_listing\<close> raises does not depend on the postcode markers: it raises exactly
  when the features section or the property-type marker is missing.
\<close>

theorem postcode_fields:
  "(sublist incode_marker text \<and> sublist outcode_marker text \<longrightarrow>
      (\<exists>d oc. extract_postcode text = (oc @ '' '' @ d, d, oc) \<and>
         d = takeWhile (\<lambda>c. c \<noteq> dq) (py_split text incode_marker ! 1) \<and>
         oc = takeWhile (\<lambda>c. c \<noteq> dq) (py_split text outcode_marker ! 1))) \<and>
   (\<not> (sublist incode_marker text \<and> sublist outcode_marker text) \<longrightarrow>
      extract_postcode text = ([], [], [])) \<and>
   (\<forall>d2. parse_listing E text dict1 l ds = Inr d2 \<longrightarrow>
      (\<exists>r p d oc. map_of d2 (listingId l) = Some r \<and>
         extract_postcode text = (p, d, oc) \<and>
         field r ''postcode'' = Some (StrV p) \<and>
         field r ''postcode_district'' = Some (StrV d) \<and>
         field r ''outcode'' = Some (StrV oc))) \<and>
   ((\<exists>e. parse_listing E text dict1 l ds = Inl e) \<longleftrightarrow>
      features_section E text = None \<or> \<not> sublist propertyType_marker text)"
proof -
  have a: "sublist incode_marker text \<and> sublist outcode_marker text \<longrightarrow>
      (\<exists>d oc. extract_postcode text = (oc @ '' '' @ d, d, oc) \<and>
         d = takeWhile (\<lambda>c. c \<noteq> dq) (py_split text incode_marker ! 1) \<and>
         oc = takeWhile (\<lambda>c. c \<noteq> dq) (py_split text outcode_marker ! 1))"
    by (simp add: extract_postcode_def postcode_try_present)
  have b: "\<not> (sublist incode_marker text \<and> sublist outcode_marker text) \<longrightarrow>
      extract_postcode text = ([], [], [])"
    using postcode_try_absent [of "text"] by (auto simp: extract_postcode_def)
  have c: "\<forall>d2. parse_listing E text dict1 l ds = Inr d2 \<longrightarrow>
      (\<exists>r p d oc. map_of d2 (listingId l) = Some r \<and>
         extract_postcode text = (p, d, oc) \<and>
         field r ''postcode'' = Some (StrV p) \<and>
         field r ''postcode_district'' = Some (StrV d) \<and>
         field r ''outcode'' = Some (StrV oc))"
    using parse_listing_record [of E "text" dict1 l ds] by blast
  from a b c parse_listing_raises [of E "text" dict1 l ds] show ?thesis by blast
qed

theorem postcode_fields_witness:
  "sublist incode_marker example_payload \<and> sublist outcode_marker example_payload \<and>
   extract_postcode example_payload = (''SW1A 1AA'', ''1AA'', ''SW1A'') \<and>
   \<not> sublist incode_marker example_payload_bare \<and>
   extract_postcode example_payload_bare = ([], [], []) \<and>
   (\<exists>d2 r. parse_listing example_env example_payload_bare [] example_listing [] = Inr d2 \<and>
      map_of d2 (listingId example_listing) = Some r \<and>
      field r ''postcode'' = Some (StrV []) \<and>
      field r ''postcode_district'' = Some (StrV []) \<and>
      field r ''outcode'' = Some (StrV []))"
proof -
  have h1: "sublist incode_marker example_payload \<and> sublist outcode_marker example_payload"
    by code_simp
  have v1: "takeWhile (\<lambda>c. c \<noteq> dq) (py_split example_payload incode_marker ! 1) = ''1AA''"
    by code_simp
  have v2: "takeWhile (\<lambda>c. c \<noteq> dq) (py_split example_payload outcode_marker ! 1) = ''SW1A''"
    by code_simp
  have h2: "\<not> sublist incode_marker example_payload_bare" by code_simp
  have h3: "features_section example_env example_payload_bare \<noteq> None \<and>
            sublist propertyType_marker example_payload_bare"
    by code_simp
  note t1 = postcode_fields [of example_payload example_env "[]" example_listing "[]"]
  note t2 = postcode_fields [of example_payload_bare example_env "[]" example_listing "[]"]
  have e1: "extract_postcode example_payload = (''SW1A 1AA'', ''1AA'', ''SW1A'')"
    using t1 h1 v1 v2 by simp
  have e2: "extract_postcode example_payload_bare = ([], [], [])"
    using t2 h2 by simp
  obtain d2 where d2: "parse_listing example_env example_payload_bare [] example_listing [] = Inr d2"
    using t2 h3 by (cases "parse_listing example_env example_payload_bare [] example_listing []") auto
  with t2 e2 have "\<exists>r. map_of d2 (listingId example_listing) = Some r \<and>
      field r ''postcode'' = Some (StrV []) \<and>
      field r ''postcode_district'' = Some (StrV []) \<and>
      field r ''outcode'' = Some (StrV [])"
    by auto
  with d2 h1 h2 e1 e2 show ?thesis by blast
qed

lemma extract_geo_floats:
  "extract_geo E text \<noteq> (StrV [], StrV []) \<Longrightarrow>
     \<exists>x y. extract_geo E text = (FloatV x, FloatV y) \<and>
       float_of E (py_strip (takeWhile (\<lambda>c. c \<noteq> CHR '','') (py_split text latitude_marker ! 1))) = Some x \<and>
       float_of E (py_strip (takeWhile (\<lambda>c. c \<noteq> CHR 0x0A) (py_split text longitude_marker ! 1))) = Some y"
  by (auto simp: extract_geo_def geo_try_cases split: option.splits if_splits)

text \<open>
  C1. The geo step yields the pair of empty strings exactly when the latitude or the
  longitude marker is missing from the payload or the text after a marker (up to the next
  comma for the latitude, up to the end of the line for the longitude, stripped) is
  rejected by \<open>float\<close>; otherwise it yields the two parsed floats. In the first case a
  record that \<open>parse_listing\<close> stores has the empty string in both fields, which is no
  number at all.
\<close>

theorem geo_fields_absent:
  "(extract_geo E text = (StrV [], StrV []) \<longleftrightarrow>
      \<not> sublist latitude_marker text \<or> \<not> sublist longitude_marker text \<or>
      (sublist latitude_marker text \<and>
       float_of E (py_strip (takeWhile (\<lambda>c. c \<noteq> CHR '','')
         (py_split text latitude_marker ! 1))) = None) \<or>
      (sublist longitude_marker text \<and>
       float_of E (py_strip (takeWhile (\<lambda>c. c \<noteq> CHR 0x0A)
         (py_split text longitude_marker ! 1))) = None)) \<and>
   (extract_geo E text \<noteq> (StrV [], StrV []) \<longrightarrow>
      (\<exists>x y. extract_geo E text = (FloatV x, FloatV y))) \<and>
   (\<forall>d2. parse_listing E text dict1 l ds = Inr d2 \<longrightarrow>
      extract_geo E text = (StrV [], StrV []) \<longrightarrow>
      (\<exists>r. map_of d2 (listingId l) = Some r \<and>
         field r ''latitude'' = Some (StrV []) \<and>
         field r ''longitude'' = Some (StrV []) \<and>
         (\<forall>z. field r ''latitude'' \<noteq> Some (FloatV z) \<and>
              field r ''longitude'' \<noteq> Some (FloatV z))))"
proof -
  have a: "extract_geo E text = (StrV [], StrV []) \<longleftrightarrow>
      \<not> sublist latitude_marker text \<or> \<not> sublist longitude_marker text \<or>
      (sublist latitude_marker text \<and>
       float_of E (py_strip (takeWhile (\<lambda>c. c \<noteq> CHR '','')
         (py_split text latitude_marker ! 1))) = None) \<or>
      (sublist longitude_marker text \<and>
       float_of E (py_strip (takeWhile (\<lambda>c. c \<noteq> CHR 0x0A)
         (py_split text longitude_marker ! 1))) = None)"
    using extract_geo_empty_iff [of E "text"] by blast
  have b: "extract_geo E text \<noteq> (StrV [], StrV []) \<longrightarrow>
      (\<exists>x y. extract_geo E text = (FloatV x, FloatV y))"
    using extract_geo_floats [of E "text"] by blast
  have c: "\<forall>d2. parse_listing E text dict1 l ds = Inr d2 \<longrightarrow>
      extract_geo E text = (StrV [], StrV []) \<longrightarrow>
      (\<exists>r. map_of d2 (listingId l) = Some r \<and>
         field r ''latitude'' = Some (StrV []) \<and>
         field r ''longitude'' = Some (StrV []) \<and>
         (\<forall>z. field r ''latitude'' \<noteq> Some (FloatV z) \<and>
              field r ''longitude'' \<noteq> Some (FloatV z)))"
  proof (intro allI impI)
    fix d2
    assume p: "parse_listing E text dict1 l ds = Inr d2"
      and g: "extract_geo E text = (StrV [], StrV [])"
    from parse_listing_record [OF p] g
    obtain r where "map_of d2 (listingId l) = Some r"
      "field r ''latitude'' = Some (StrV [])" "field r ''longitude'' = Some (StrV [])"
      by auto
    then show "\<exists>r. map_of d2 (listingId l) = Some r \<and>
         field r ''latitude'' = Some (StrV []) \<and>
         field r ''longitude'' = Some (StrV []) \<and>
         (\<forall>z. field r ''latitude'' \<noteq> Some (FloatV z) \<and>
              field r ''longitude'' \<noteq> Some (FloatV z))"
      by auto
  qed
  from a b c show ?thesis by blast
qed

theorem geo_fields_absent_witness:
  "\<not> sublist latitude_marker example_payload_bare \<and>
   extract_geo example_env example_payload_bare = (StrV [], StrV []) \<and>
   sublist latitude_marker example_payload_bad_geo \<and>
   float_of example_env (py_strip (takeWhile (\<lambda>c. c \<noteq> CHR '','')
     (py_split example_payload_bad_geo latitude_marker ! 1))) = None \<and>
   extract_geo example_env example_payload_bad_geo = (StrV [], StrV []) \<and>
   (\<exists>d2 r. parse_listing example_env example_payload_bad_geo [] example_listing [] = Inr d2 \<and>
      map_of d2 (listingId example_listing) = Some r \<and>
      field r ''latitude'' = Some (StrV []) \<and> field r ''longitude'' = Some (StrV []))"
proof -
  have h1: "\<not> sublist latitude_marker example_payload_bare" by code_simp
  have h2: "sublist latitude_marker example_payload_bad_geo" by code_simp
  have h3: "float_of example_env (py_strip (takeWhile (\<lambda>c. c \<noteq> CHR '','')
     (py_split example_payload_bad_geo latitude_marker ! 1))) = None"
    by code_simp
  have h4: "features_section example_env example_payload_bad_geo \<noteq> None \<and>
            sublist propertyType_marker example_payload_bad_geo"
    by code_simp
  note t1 = geo_fields_absent [of example_env example_payload_bare "[]" example_listing "[]"]
  note t2 = geo_fields_absent [of example_env example_payload_bad_geo "[]" example_listing "[]"]
  have e1: "extract_geo example_env example_payload_bare = (StrV [], StrV [])"
    using t1 h1 by blast
  have e2: "extract_geo example_env example_payload_bad_geo = (StrV [], StrV [])"
    using t2 h2 h3 by blast
  obtain d2 where d2: "parse_listing example_env example_payload_bad_geo [] example_listing [] = Inr d2"
    using parse_listing_raises [of example_env example_payload_bad_geo "[]" example_listing "[]"] h4
    by (cases "parse_listing example_env example_payload_bad_geo [] example_listing []") auto
  with t2 e2 have "\<exists>r. map_of d2 (listingId example_listing) = Some r \<and>
      field r ''latitude'' = Some (StrV []) \<and> field r ''longitude'' = Some (StrV [])"
    by blast
  with d2 h1 h2 h3 e1 e2 show ?thesis by blast
qed

lemma extract_postcode_empty:
  "extract_postcode text = (p, d, oc) \<Longrightarrow> p = [] \<Longrightarrow> oc = []"
  by (cases "sublist incode_marker text \<and> sublist outcode_marker text")
     (auto simp: extract_postcode_def postcode_try_present postcode_try_absent)

text \<open>
  C8. The display address of a stored record is the listing's address with every
  occurrence of the extracted postcode replaced by the extracted outcode: unchanged when
  the postcode does not occur in it (or was not found in the payload), and with the
  outcode in the postcode's place when it occurs once.
\<close>

theorem display_address_redacted:
  "\<forall>d2. parse_listing E text dict1 l ds = Inr d2 \<longrightarrow>
     (\<exists>r p d oc. map_of d2 (listingId l) = Some r \<and>
        extract_postcode text = (p, d, oc) \<and>
        field r ''display_address'' = Some (StrV (py_replace (address l) p oc)) \<and>
        (p = [] \<or> \<not> sublist p (address l) \<longrightarrow> py_replace (address l) p oc = address l) \<and>
        (\<forall>pre rest. address l = pre @ p @ rest \<and> p \<noteq> [] \<and>
            \<not> sublist p (pre @ butlast p) \<and> \<not> sublist p rest \<longrightarrow>
            py_replace (address l) p oc = pre @ oc @ rest))"
proof (intro allI impI)
  fix d2
  assume p: "parse_listing E text dict1 l ds = Inr d2"
  from parse_listing_record [OF p]
  obtain r p d oc where r: "map_of d2 (listingId l) = Some r"
    "extract_postcode text = (p, d, oc)"
    "field r ''display_address'' = Some (StrV (py_replace (address l) p oc))"
    by auto
  have u: "p = [] \<or> \<not> sublist p (address l) \<longrightarrow> py_replace (address l) p oc = address l"
    using extract_postcode_empty [OF r(2)] py_replace_empty py_replace_absent by blast
  have v: "\<forall>pre rest. address l = pre @ p @ rest \<and> p \<noteq> [] \<and>
            \<not> sublist p (pre @ butlast p) \<and> \<not> sublist p rest \<longrightarrow>
            py_replace (address l) p oc = pre @ oc @ rest"
    by (simp add: py_replace_first py_replace_absent)
  from r u v show "\<exists>r p d oc. map_of d2 (listingId l) = Some r \<and>
        extract_postcode text = (p, d, oc) \<and>
        field r ''display_address'' = Some (StrV (py_replace (address l) p oc)) \<and>
        (p = [] \<or> \<not> sublist p (address l) \<longrightarrow> py_replace (address l) p oc = address l) \<and>
        (\<forall>pre rest. address l = pre @ p @ rest \<and> p \<noteq> [] \<and>
            \<not> sublist p (pre @ butlast p) \<and> \<not> sublist p rest \<longrightarrow>
            py_replace (address l) p oc = pre @ oc @ rest)"
    by blast
qed

theorem display_address_redacted_witness:
  "\<exists>d2 r. parse_listing example_env example_payload [] example_listing [] = Inr d2 \<and>
     map_of d2 (listingId example_listing) = Some r \<and>
     extract_postcode example_payload = (''SW1A 1AA'', ''1AA'', ''SW1A'') \<and>
     address example_listing = ''SW1A 1AA, London'' \<and>
     field r ''display_address'' = Some (StrV ''SW1A, London'')"
proof -
  have h: "features_section example_env example_payload \<noteq> None \<and>
           sublist propertyType_marker example_payload"
    by code_simp
  obtain d2 where d2: "parse_listing example_env example_payload [] example_listing [] = Inr d2"
    using parse_listing_raises [of example_env example_payload "[]" example_listing "[]"] h
    by (cases "parse_listing example_env example_payload [] example_listing []") auto
  have e: "extract_postcode example_payload = (''SW1A 1AA'', ''1AA'', ''SW1A'')" by code_simp
  have a: "address example_listing = ''SW1A 1AA, London''" by code_simp
  have rp: "py_replace ''SW1A 1AA, London'' ''SW1A 1AA'' ''SW1A'' = ''SW1A, London''" by code_simp
  from display_address_redacted [of example_env example_payload "[]" example_listing "[]"] d2 e
  obtain r where "map_of d2 (listingId example_listing) = Some r"
    "field r ''display_address'' = Some (StrV (py_replace (address example_listing) ''SW1A 1AA'' ''SW1A''))"
    by auto
  with d2 e a rp show ?thesis by auto
qed

section \<open>Properties of the detail fetch\<close>

lemma latitude_check:
  "bind (item (py_split text latitude_marker) (Suc 0)) (\<lambda>a. item (py_split a '','') 0) =
     (if sublist latitude_marker text
      then Inr (hd (py_split (py_split text latitude_marker ! Suc 0) '',''))
      else Inl IndexError)"
  by (simp add: bind_def item_split_1_present item_split_1_absent item_split_0 markers_nonempty)


lemma try_request_accepted:
  "params_bound E \<Longrightarrow> http_get E (clock st) ln = Responds code text \<Longrightarrow>
   sublist latitude_marker text \<Longrightarrow>
     try_request E ln st =
       (Inr (code, text),
        st\<lparr>clock := Suc (clock st),
           log := log st @ [Get ln (Responds code text), Print_status code]\<rparr>)"
  by (simp add: try_request_def latitude_check emit_def Let_def)

lemma try_request_failed:
  assumes "params_bound E" "\<not> accepted (http_get E (clock st) ln)"
  shows "\<exists>e st1. try_request E ln st = (Inl e, st1) \<and>
           except_block ln e st1 =
             st\<lparr>clock := Suc (clock st),
                log := log st @ failed_iteration ln (http_get E (clock st) ln)\<rparr>"
  using assms
  by (cases "http_get E (clock st) ln")
     (auto simp: try_request_def latitude_check emit_def Let_def accepted_def
        except_block_def failed_iteration_def)








lemma request_loop_returns:
  "params_bound E \<Longrightarrow> \<forall>j<k. \<not> accepted (http_get E (clock st + j) ln) \<Longrightarrow>
   accepted (http_get E (clock st + k) ln) \<Longrightarrow> k < n \<Longrightarrow>
     \<exists>r st'. request_loop E n ln st = Returned r st'"
proof (induction n arbitrary: st k)
  case 0
  then show ?case by simp
next
  case (Suc n)
  show ?case
  proof (cases k)
    case 0
    with Suc.prems(3) obtain code body where
      "http_get E (clock st) ln = Responds code body" "sublist latitude_marker body"
      by (cases "http_get E (clock st) ln") (auto simp: accepted_def)
    from try_request_accepted [OF Suc.prems(1) this] show ?thesis by simp
  next
    case (Suc k')
    with Suc.prems have "\<not> accepted (http_get E (clock st) ln)" by force
    from try_request_failed [OF Suc.prems(1) this]
    obtain e st1 where t: "try_request E ln st = (Inl e, st1)"
      and eb: "except_block ln e st1 =
             st\<lparr>clock := Suc (clock st),
                log := log st @ failed_iteration ln (http_get E (clock st) ln)\<rparr>"
      by blast
    have a: "\<forall>j<k'. \<not> accepted (http_get E (clock (except_block ln e st1) + j) ln)"
      using Suc.prems(2) Suc eb by auto
    have b: "accepted (http_get E (clock (except_block ln e st1) + k') ln)"
      using Suc.prems(3) Suc eb by simp
    have c: "k' < n" using Suc.prems(4) Suc by simp
    from Suc.IH [OF Suc.prems(1) a b c] t show ?thesis by simp
  qed
qed





section \<open>Properties of the final table\<close>

lemma set_keep_first: "set (keep_first xs) = set xs"
  by (simp add: keep_first_def)

lemma distinct_keep_first: "distinct (keep_first xs)"
  by (simp add: keep_first_def)

lemma keep_first_Nil_iff: "keep_first xs = [] \<longleftrightarrow> xs = []"
  using set_keep_first [of xs] by (metis set_empty)

lemma map_fst_overwrite:
  "map fst (map (\<lambda>p. if fst p = name then (name, v) else p) row) = map fst row"
  by (induction row) auto

lemma cells_assign_other: "n \<noteq> name \<Longrightarrow> cells (assign name v row) n = cells row n"
proof -
  assume "n \<noteq> name"
  then have "filter (\<lambda>p. fst p = n) (map (\<lambda>p. if fst p = name then (name, v) else p) row) =
        filter (\<lambda>p. fst p = n) row"
    by (induction row) auto
  with \<open>n \<noteq> name\<close> show ?thesis by (simp add: cells_def assign_def)
qed

lemma cells_assign_same:
  "cells (assign name v row) name =
     (if name \<in> set (map fst row) then map (\<lambda>x. v) (cells row name) else [v])"
proof -
  have a: "map snd (filter (\<lambda>p. fst p = name) (map (\<lambda>p. if fst p = name then (name, v) else p) row)) =
        map (\<lambda>x. v) (map snd (filter (\<lambda>p. fst p = name) row))"
    by (induction row) auto
  have b: "name \<notin> set (map fst row) \<Longrightarrow> filter (\<lambda>p. fst p = name) row = []"
    by (induction row) auto
  show ?thesis using a b by (auto simp: cells_def assign_def)
qed

lemma cells_replace_empty:
  "cells (replace_empty row) n = map (\<lambda>x. if x = StrV [] then NaN else x) (cells row n)"
  by (induction row) (auto simp: cells_def replace_empty_def)

lemma cells_rename_row:
  assumes "rename_column m = n"
    and "\<forall>c \<in> set (map fst row). rename_column c = n \<longrightarrow> c = m"
  shows "cells (rename_row row) n = cells row m"
proof -
  have eq: "(rename_column (fst p) = n) = (fst p = m)" if "p \<in> set row" for p
  proof
    assume "rename_column (fst p) = n"
    moreover from that have "fst p \<in> set (map fst row)" by simp
    ultimately show "fst p = m" using assms(2) by blast
  next
    assume "fst p = m"
    then show "rename_column (fst p) = n" using assms(1) by blast
  qed
  have "filter (\<lambda>p. fst p = n) (rename_row row) =
        map (\<lambda>p. (rename_column (fst p), snd p)) (filter (\<lambda>p. rename_column (fst p) = n) row)"
    unfolding rename_row_def by (induction row) simp_all
  also have "filter (\<lambda>p. rename_column (fst p) = n) row = filter (\<lambda>p. fst p = m) row"
    using eq by (rule filter_cong [OF refl])
  finally show ?thesis by (simp add: cells_def comp_def)
qed

lemma cells_select:
  "n \<in> set names \<Longrightarrow> distinct names \<Longrightarrow>
     cells (concat (map (\<lambda>w. filter (\<lambda>p. fst p = w) row) names)) n = cells row n"
proof (induction names)
  case Nil
  then show ?case by simp
next
  case (Cons w names)
  have other: "n \<notin> set ws \<Longrightarrow>
      cells (concat (map (\<lambda>w. filter (\<lambda>p. fst p = w) row) ws)) n = []" for ws
    by (induction ws) (auto simp: cells_def filter_empty_conv)
  show ?case
  proof (cases "n = w")
    case True
    with Cons.prems have "n \<notin> set names" by simp
    from other [OF this] True show ?thesis by (simp add: cells_def)
  next
    case False
    with Cons have "cells (concat (map (\<lambda>w. filter (\<lambda>p. fst p = w) row) names)) n = cells row n"
      by simp
    with False show ?thesis by (auto simp: cells_def filter_empty_conv)
  qed
qed

lemma cells_price_map:
  "cells (map (\<lambda>p. if fst p = ''price'' then (fst p, f (snd p)) else p) row) n =
     (if n = ''price'' then map f (cells row n) else cells row n)"
  by (induction row) (auto simp: cells_def)

lemma cells_reindex:
  "distinct cols \<Longrightarrow>
     cells (reindex cols d) n =
       (if n \<in> set cols then [case map_of d n of Some v \<Rightarrow> v | None \<Rightarrow> NaN] else [])"
  by (induction cols) (auto simp: cells_def reindex_def)

lemma map_fst_reindex: "map fst (reindex cols d) = cols"
  by (simp add: reindex_def comp_def)

lemma map_fst_assign:
  "map fst (assign name v row) =
     (if name \<in> set (map fst row) then map fst row else map fst row @ [name])"
proof (cases "name \<in> set (map fst row)")
  case True
  then have "assign name v row = map (\<lambda>p. if fst p = name then (name, v) else p) row"
    unfolding assign_def by (rule if_P)
  with True map_fst_overwrite [of name v row] show ?thesis by simp
next
  case False
  then have "assign name v row = row @ [(name, v)]"
    unfolding assign_def by (rule if_not_P)
  with False show ?thesis by simp
qed

lemma map_fst_price_map:
  "map fst (map (\<lambda>p. if fst p = ''price'' then (fst p, f (snd p)) else p) row) = map fst row"
  by (induction row) auto

lemma bind_Inr_iff: "bind m f = Inr y \<longleftrightarrow> (\<exists>x. m = Inr x \<and> f x = Inr y)"
  by (cases m) (simp_all add: bind_def)

lemma pd_concat_Inr:
  "pd_concat frames = Inr df \<longleftrightarrow>
     frames \<noteq> [] \<and> df = map (reindex (keep_first (concat (map (map fst) frames)))) frames"
  by (auto simp: pd_concat_def)

lemma normalize_price_Inr:
  "normalize_price E df = Inr df' \<longleftrightarrow>
     ''price'' \<in> set (columns df) \<and>
     df' = map (map (\<lambda>p. if fst p = ''price'' then (fst p, price_cell E (snd p)) else p)) df"
  by (auto simp: normalize_price_def)

lemma select_columns_Inr:
  "select_columns names df = Inr df' \<longleftrightarrow>
     set names \<subseteq> set (columns df) \<and>
     df' = map (\<lambda>row. concat (map (\<lambda>w. filter (\<lambda>p. fst p = w) row) names)) df"
proof -
  have "filter (\<lambda>w. w \<notin> set (columns df)) names = [] \<longleftrightarrow> set names \<subseteq> set (columns df)"
    by (auto simp: filter_empty_conv)
  then show ?thesis
    by (cases "filter (\<lambda>w. w \<notin> set (columns df)) names") (auto simp: select_columns_def)
qed

text \<open>One frame taken through every step of \<open>clean_property_data\<close>.\<close>

lemma clean_property_data_rows:
  assumes "clean_property_data E d2 dt = Inr tbl"
  shows "d2 \<noteq> [] \<and>
    tbl = keep_first (map (\<lambda>d.
        assign ''date'' (StrV dt)
          (concat (map (\<lambda>w. filter (\<lambda>p. fst p = w)
             (replace_empty (rename_row (assign ''listing_id'' NaN
               (map (\<lambda>p. if fst p = ''price'' then (fst p, price_cell E (snd p)) else p)
                 (assign ''listing_condition'' (StrV ''pre-owned'')
                   (reindex (keep_first (concat (map (map fst) (map snd d2)))) d)))))))
             final_columns)))
      (map snd d2))"
  using assms
  by (auto simp: clean_property_data_def bind_Inr_iff pd_concat_Inr normalize_price_Inr
      select_columns_Inr comp_def)

lemma distinct_final_columns: "distinct final_columns"
  by (simp add: final_columns_def)

lemma rename_column_fixed:
  "rename_column m = ''listing_condition'' \<Longrightarrow> m = ''listing_condition''"
  by (auto simp: rename_column_def split: if_splits)

lemma final_row_cells:
  assumes ok: "clean_property_data E d2 dt = Inr tbl"
    and mem: "(k, r) \<in> set d2"
    and n: "n \<in> set final_columns"
    and ren: "rename_column m = n"
    and uniq: "\<forall>r' \<in> set (map snd d2). \<forall>c \<in> set (map fst r'). rename_column c = n \<longrightarrow> c = m"
    and col: "map_of r m = Some v"
    and m1: "m \<noteq> ''listing_condition''"
  shows "\<exists>row \<in> set tbl. cells row n =
           [if (if m = ''price'' then price_cell E v else v) = StrV [] then NaN
            else (if m = ''price'' then price_cell E v else v)]"
proof -
  define cols where "cols = keep_first (concat (map (map fst) (map snd d2)))"
  define R0 where "R0 = reindex cols r"
  define R1 where "R1 = assign ''listing_condition'' (StrV ''pre-owned'') R0"
  define R2 where "R2 = map (\<lambda>p. if fst p = ''price'' then (fst p, price_cell E (snd p)) else p) R1"
  define R3 where "R3 = assign ''listing_id'' NaN R2"
  define R4 where "R4 = rename_row R3"
  define R5 where "R5 = replace_empty R4"
  define R6 where "R6 = concat (map (\<lambda>w. filter (\<lambda>p. fst p = w) R5) final_columns)"
  define R7 where "R7 = assign ''date'' (StrV dt) R6"
  define w where "w = (if m = ''price'' then price_cell E v else v)"
  have n_ne: "n \<noteq> ''listing_id''" "n \<noteq> ''date''"
    using n by (auto simp: final_columns_def)
  have m_ne: "m \<noteq> ''listing_id''"
    using ren n_ne(1) by (auto simp: rename_column_def)
  have n_lc: "n \<noteq> ''listing_condition''"
    using ren m1 rename_column_fixed by blast
  have dist: "distinct cols" by (simp add: cols_def distinct_keep_first)
  have "m \<in> set (map fst r)" using col by (metis map_of_eq_None_iff option.distinct(1) set_map)
  with mem have mcol: "m \<in> set cols"
    by (force simp: cols_def set_keep_first)
  have c0: "cells R0 m = [v]"
    using mcol col by (simp add: R0_def cells_reindex [OF dist])
  have c1: "cells R1 m = [v]"
    using m1 c0 by (simp add: R1_def cells_assign_other)
  have c2: "cells R2 m = [w]"
    using c1 by (cases "m = ''price''") (auto simp: R2_def w_def cells_price_map)
  have c3: "cells R3 m = [w]"
    using m_ne c2 by (simp add: R3_def cells_assign_other)
  have f0: "map fst R0 = cols" by (simp add: R0_def map_fst_reindex)
  have f1: "set (map fst R1) = insert ''listing_condition'' (set cols)"
    using f0 by (auto simp: R1_def map_fst_assign simp del: set_map)
  have f2: "map fst R2 = map fst R1"
    unfolding R2_def by (rule map_fst_price_map)
  have f3: "set (map fst R3) \<subseteq> insert ''listing_id'' (insert ''listing_condition'' (set cols))"
    using f1 f2 by (auto simp: R3_def map_fst_assign simp del: set_map)
  have u: "\<forall>c \<in> set (map fst R3). rename_column c = n \<longrightarrow> c = m"
  proof (intro ballI impI)
    fix c assume c: "c \<in> set (map fst R3)" and rc: "rename_column c = n"
    from c f3 have "c = ''listing_id'' \<or> c = ''listing_condition'' \<or> c \<in> set cols" by blast
    then show "c = m"
    proof (elim disjE)
      assume "c = ''listing_id''"
      with rc n_ne(1) show ?thesis by (simp add: rename_column_def)
    next
      assume "c = ''listing_condition''"
      with rc n_lc show ?thesis by (simp add: rename_column_def)
    next
      assume "c \<in> set cols"
      then obtain r' where "r' \<in> set (map snd d2)" "c \<in> set (map fst r')"
        by (auto simp: cols_def set_keep_first)
      with uniq rc show ?thesis by blast
    qed
  qed
  have c4: "cells R4 n = [w]"
    using cells_rename_row [OF ren u] c3 by (simp add: R4_def)
  have c5: "cells R5 n = [if w = StrV [] then NaN else w]"
    using c4 by (simp add: R5_def cells_replace_empty)
  have c6: "cells R6 n = [if w = StrV [] then NaN else w]"
    using c5 by (simp add: R6_def cells_select [OF n distinct_final_columns])
  have c7: "cells R7 n = [if w = StrV [] then NaN else w]"
    using n_ne(2) c6 by (simp add: R7_def cells_assign_other)
  from clean_property_data_rows [OF ok]
  have "tbl = keep_first (map (\<lambda>d.
        assign ''date'' (StrV dt)
          (concat (map (\<lambda>w. filter (\<lambda>p. fst p = w)
             (replace_empty (rename_row (assign ''listing_id'' NaN
               (map (\<lambda>p. if fst p = ''price'' then (fst p, price_cell E (snd p)) else p)
                 (assign ''listing_condition'' (StrV ''pre-owned'')
                   (reindex cols d)))))))
             final_columns)))
      (map snd d2))"
    by (simp add: cols_def)
  moreover have "r \<in> set (map snd d2)" using mem by force
  ultimately have "R7 \<in> set tbl"
    unfolding R7_def R6_def R5_def R4_def R3_def R2_def R1_def R0_def
    by (simp only: set_keep_first set_map image_eqI)
  with c7 show ?thesis unfolding w_def by blast
qed




lemma example_clean:
  "clean_property_data example_env example_dataset ''2022-06-01'' = Inr [example_row]"
  by (simp add: clean_property_data_def bind_def pd_concat_def keep_first_def reindex_def
      assign_def normalize_price_def columns_def price_cell_def strip_pound_comma_def
      example_env_def decimal_numeric_def is_digit_def decimal_value_def digit_value_def
      rename_row_def rename_column_def replace_empty_def select_columns_def final_columns_def
      example_dataset_def example_row_def)









lemma strip_pound_comma_digits:
  assumes "\<forall>c \<in> set s. is_digit c \<or> c = CHR 0xA3 \<or> c = CHR '',''"
  shows "strip_pound_comma s = filter is_digit s"
proof -
  have "\<not> is_digit (CHR 0xA3)" "\<not> is_digit CHR '',''" by (simp_all add: is_digit_def)
  with assms have "(c \<noteq> CHR 0xA3 \<and> c \<noteq> CHR '','') = is_digit c" if "c \<in> set s" for c
    using that by blast
  then show ?thesis unfolding strip_pound_comma_def by (rule filter_cong [OF refl])
qed

lemma rename_column_price: "rename_column c = ''price'' \<Longrightarrow> c = ''price''"
  by (auto simp: rename_column_def split: if_splits)

lemma price_cell_Int: "\<exists>n. price_cell E c = IntV n"
  by (cases c) (auto simp: price_cell_def split: option.splits)

text \<open>
  C2 (as amended). Let the numeric parser read every non-empty string of decimal digits
  with a value below some bound as that value. Then a price made of digits, pound signs
  and commas only, with at least one digit and a value below the bound, becomes the
  integer its digits write; a price whose text, once pound signs and commas are removed,
  the parser rejects becomes 0; and in the final table the row of a record carries the
  normalized price under \<open>price\<close>.
\<close>

theorem price_normalization:
  assumes "\<forall>ds. ds \<noteq> [] \<and> list_all is_digit ds \<and> decimal_value ds < B \<longrightarrow>
             to_numeric E ds = Some (int (decimal_value ds))"
  shows "(\<forall>s. (\<forall>c \<in> set s. is_digit c \<or> c = CHR 0xA3 \<or> c = CHR '','') \<and>
             (\<exists>c \<in> set s. is_digit c) \<and> decimal_value (filter is_digit s) < B \<longrightarrow>
             price_cell E (StrV s) = IntV (int (decimal_value (filter is_digit s)))) \<and>
         (\<forall>s. to_numeric E (strip_pound_comma s) = None \<longrightarrow> price_cell E (StrV s) = IntV 0) \<and>
         (\<forall>d2 dt tbl k r s. clean_property_data E d2 dt = Inr tbl \<and> (k, r) \<in> set d2 \<and>
             map_of r ''price'' = Some (StrV s) \<longrightarrow>
             (\<exists>row \<in> set tbl. cells row ''price'' = [price_cell E (StrV s)]))"
proof (intro conjI allI impI)
  fix s
  assume a: "(\<forall>c \<in> set s. is_digit c \<or> c = CHR 0xA3 \<or> c = CHR '','') \<and>
             (\<exists>c \<in> set s. is_digit c) \<and> decimal_value (filter is_digit s) < B"
  then have st: "strip_pound_comma s = filter is_digit s"
    using strip_pound_comma_digits by blast
  from a have "filter is_digit s \<noteq> []" by (auto simp: filter_empty_conv)
  moreover have "list_all is_digit (filter is_digit s)" by (simp add: list_all_iff)
  ultimately have "to_numeric E (filter is_digit s) = Some (int (decimal_value (filter is_digit s)))"
    using assms a by blast
  with st show "price_cell E (StrV s) = IntV (int (decimal_value (filter is_digit s)))"
    by (simp add: price_cell_def)
next
  fix s
  assume "to_numeric E (strip_pound_comma s) = None"
  then show "price_cell E (StrV s) = IntV 0" by (simp add: price_cell_def)
next
  fix d2 dt tbl k r s
  assume a: "clean_property_data E d2 dt = Inr tbl \<and> (k, r) \<in> set d2 \<and>
             map_of r ''price'' = Some (StrV s)"
  have n: "''price'' \<in> set final_columns" by (simp add: final_columns_def)
  have ren: "rename_column ''price'' = ''price''" by (simp add: rename_column_def)
  have uniq: "\<forall>r' \<in> set (map snd d2). \<forall>c \<in> set (map fst r').
      rename_column c = ''price'' \<longrightarrow> c = ''price''"
    using rename_column_price by blast
  have ne: "''price'' \<noteq> ''listing_condition''" by simp
  from a final_row_cells [OF _ _ n ren uniq _ ne, of E dt tbl k r "StrV s"]
  obtain row where "row \<in> set tbl"
    "cells row ''price'' = [if price_cell E (StrV s) = StrV [] then NaN else price_cell E (StrV s)]"
    by auto
  moreover obtain m where "price_cell E (StrV s) = IntV m" using price_cell_Int by blast
  ultimately show "\<exists>row \<in> set tbl. cells row ''price'' = [price_cell E (StrV s)]"
    by auto
qed

theorem price_normalization_witness:
  "to_numeric example_env = decimal_numeric \<and>
   price_cell example_env (StrV (CHR 0xA3 # ''350,000'')) = IntV 350000 \<and>
   to_numeric example_env (strip_pound_comma ''POA'') = None \<and>
   price_cell example_env (StrV ''POA'') = IntV 0 \<and>
   (\<exists>row \<in> set [example_row]. cells row ''price'' =
      [price_cell example_env (StrV (CHR 0xA3 # ''250,000''))])"
proof -
  have h: "\<forall>ds. ds \<noteq> [] \<and> list_all is_digit ds \<and> decimal_value ds < 2 ^ 53 \<longrightarrow>
       to_numeric example_env ds = Some (int (decimal_value ds))"
    by (simp add: example_env_def decimal_numeric_def)
  note t = price_normalization [OF h]
  have d: "\<forall>c \<in> set (CHR 0xA3 # ''350,000''). is_digit c \<or> c = CHR 0xA3 \<or> c = CHR '',''"
    "\<exists>c \<in> set (CHR 0xA3 # ''350,000''). is_digit c"
    by (simp_all add: is_digit_def)
  have v: "decimal_value (filter is_digit (CHR 0xA3 # ''350,000'')) = 350000"
    by (simp add: is_digit_def decimal_value_def digit_value_def)
  have p1: "price_cell example_env (StrV (CHR 0xA3 # ''350,000'')) = IntV 350000"
    using t d v by auto
  have n: "to_numeric example_env (strip_pound_comma ''POA'') = None"
    by (simp add: example_env_def decimal_numeric_def strip_pound_comma_def is_digit_def)
  have p2: "price_cell example_env (StrV ''POA'') = IntV 0"
    using t n by blast
  have m: "(''61234567'', snd (hd example_dataset)) \<in> set example_dataset"
    "map_of (snd (hd example_dataset)) ''price'' = Some (StrV (CHR 0xA3 # ''250,000''))"
    by (simp_all add: example_dataset_def)
  have p3: "\<exists>row \<in> set [example_row]. cells row ''price'' =
      [price_cell example_env (StrV (CHR 0xA3 # ''250,000''))]"
    using t example_clean m by blast
  have e: "to_numeric example_env = decimal_numeric" by (simp add: example_env_def)
  from e p1 n p2 p3 show ?thesis by blast
qed

text \<open>
  C2 as stated fails for a currency symbol other than the pound sign: the dollar sign
  stays in the text, the parser rejects it, and the price becomes 0, not 350000.
\<close>

theorem dollar_price_becomes_zero:
  "strip_pound_comma ''$350,000'' = ''$350000'' \<and>
   to_numeric example_env ''$350000'' = None \<and>
   price_cell example_env (StrV ''$350,000'') = IntV 0 \<and>
   price_cell example_env (StrV ''$350,000'') \<noteq> IntV 350000"
  by (simp add: price_cell_def strip_pound_comma_def example_env_def decimal_numeric_def
      is_digit_def)

section \<open>Properties of the orchestrator\<close>

lemma page_requests_append [simp]:
  "page_requests (xs @ ys) = page_requests xs @ page_requests ys"
  by (induction xs rule: page_requests.induct) simp_all

lemma no_request_after_end_append:
  "no_request_after_end (xs @ ys) \<longleftrightarrow>
     no_request_after_end xs \<and> no_request_after_end ys \<and>
     (\<forall>q \<in> set xs. ends_page (snd q) \<longrightarrow> fst q \<notin> set (map fst ys))"
  by (induction xs) auto

lemma state_of_simps [simp]:
  "state_of (Returned x st) = st" "state_of (Raised e st) = st" "state_of (Running st) = st"
  by (simp_all add: state_of_def)

lemma log_emit [simp]: "log (emit evs st) = log st @ evs"
  by (simp add: emit_def)

lemma dict2_emit [simp]: "dict2 (emit evs st) = dict2 st"
  by (simp add: emit_def)

lemma clock_emit [simp]: "clock (emit evs st) = clock st"
  by (simp add: emit_def)

text \<open>One pass through the \<open>try\<close> block: the dataset is untouched, no search request.\<close>

lemma try_request_effect:
  assumes "try_request E ln st = (x, st1)"
  shows "dict2 st1 = dict2 st \<and> page_requests (log st1) = page_requests (log st)"
  using assms
  by (cases "http_get E (clock st) ln")
     (auto simp: try_request_def Let_def split: if_splits sum.splits)

lemma except_block_effect:
  "dict2 (except_block ln e st) = dict2 st \<and>
   page_requests (log (except_block ln e st)) = page_requests (log st)"
  by (simp add: except_block_def)

lemma request_loop_effect:
  "dict2 (state_of (request_loop E n ln st)) = dict2 st \<and>
   page_requests (log (state_of (request_loop E n ln st))) = page_requests (log st)"
proof (induction n arbitrary: st)
  case 0
  then show ?case by simp
next
  case (Suc n)
  obtain x st1 where t: "try_request E ln st = (x, st1)" by (cases "try_request E ln st")
  show ?case
  proof (cases x)
    case (Inr r)
    with t try_request_effect [OF t] show ?thesis by simp
  next
    case (Inl e)
    with t try_request_effect [OF t] except_block_effect [of ln e st1]
      Suc.IH [of "except_block ln e st1"]
    show ?thesis by simp
  qed
qed

lemma request_listing_data_effect:
  "dict2 (state_of (request_listing_data E n l st)) = dict2 st \<and>
   page_requests (log (state_of (request_listing_data E n l st))) = page_requests (log st)"
proof (cases "map_of (initial_dict1 l) ''url''")
  case None
  then show ?thesis by (simp add: request_listing_data_def)
next
  case (Some ln)
  with request_loop_effect [of E n ln st] show ?thesis
    by (cases "request_loop E n ln st") (simp_all add: request_listing_data_def)
qed

lemma parse_listing_update:
  assumes "parse_listing E text dict1 l ds = Inr ds'"
  shows "\<exists>r. ds' = AList.update (listingId l) r ds"
proof -
  obtain p d oc where pc: "extract_postcode text = (p, d, oc)" by (cases "extract_postcode text")
  obtain lat lon where geo: "extract_geo E text = (lat, lon)" by (cases "extract_geo E text")
  show ?thesis
    using assms
    by (cases "extract_description E text"; cases "extract_property_type text")
       (auto simp: parse_listing_def bind_def pc geo Let_def)
qed

lemma parse_listing_distinct:
  "parse_listing E text dict1 l ds = Inr ds' \<Longrightarrow> distinct (map fst ds) \<Longrightarrow>
     distinct (map fst ds')"
  using parse_listing_update [of E "text" dict1 l ds ds'] by (auto simp: distinct_update)

lemma process_listings_effect:
  "page_requests (log (state_of (process_listings E n ls st))) = page_requests (log st) \<and>
   (distinct (map fst (dict2 st)) \<longrightarrow>
      distinct (map fst (dict2 (state_of (process_listings E n ls st)))))"
proof (induction ls arbitrary: st)
  case Nil
  then show ?case by simp
next
  case (Cons l ls)
  note eff = request_listing_data_effect [of E n l st]
  show ?case
  proof (cases "request_listing_data E n l st")
    case (Running st1)
    with eff show ?thesis by simp
  next
    case (Raised e st1)
    with eff show ?thesis by simp
  next
    case (Returned x st1)
    obtain response dict1 where x: "x = (response, dict1)" by (cases x)
    show ?thesis
    proof (cases "parse_listing E (snd response) dict1 l (dict2 st1)")
      case (Inl e)
      with Returned x eff show ?thesis by simp
    next
      case (Inr d2)
      let ?st2 = "emit [Write_stdout ''.''] (st1\<lparr>dict2 := d2\<rparr>)"
      have a: "page_requests (log ?st2) = page_requests (log st)"
        using eff Returned by simp
      have b: "distinct (map fst (dict2 st)) \<longrightarrow> distinct (map fst (dict2 ?st2))"
        using eff Returned parse_listing_distinct [OF Inr] by simp
      from Cons.IH [of ?st2] a b Returned x Inr show ?thesis by simp
    qed
  qed
qed

lemma get_page_listings_effect:
  assumes "get_page_listings E p pt st = (ls, st1)"
  shows "dict2 st1 = dict2 st \<and>
         page_requests (log st1) = page_requests (log st) @ [(pt, search_reply E (clock st) pt p)] \<and>
         ((ls = None \<or> ls = Some []) \<longleftrightarrow> ends_page (search_reply E (clock st) pt p))"
  using assms
  by (cases "search_reply E (clock st) pt p")
     (auto simp: get_page_listings_def Let_def ends_page_def split: option.splits)

lemma page_loop_effect:
  "(\<exists>X. page_requests (log (state_of (page_loop E n m pt p st))) = page_requests (log st) @ X \<and>
        no_request_after_end X \<and> set (map fst X) \<subseteq> {pt}) \<and>
   (distinct (map fst (dict2 st)) \<longrightarrow>
      distinct (map fst (dict2 (state_of (page_loop E n m pt p st)))))"
proof (induction m arbitrary: p st)
  case 0
  then show ?case by simp
next
  case (Suc m)
  obtain ls st1 where g: "get_page_listings E p pt st = (ls, st1)"
    by (cases "get_page_listings E p pt st")
  note ge = get_page_listings_effect [OF g]
  let ?r = "search_reply E (clock st) pt p"
  let ?st2 = "emit [Print_page p] st1"
  let ?o = "page_loop E n (Suc m) pt p st"
  have N: "no_request_after_end [(pt, ?r)]" "set (map fst [(pt, ?r)]) \<subseteq> {pt}"
    by simp_all
  have base: "page_requests (log ?st2) = page_requests (log st) @ [(pt, ?r)]"
    "dict2 ?st2 = dict2 st"
    using ge by simp_all
  show ?case
  proof (cases "ls = None \<or> ls = Some []")
    case True
    with g have o: "?o = Returned () (emit [Print_text ''Completed.''] ?st2)"
      by (auto simp: Let_def)
    have R: "page_requests (log (state_of ?o)) = page_requests (log st) @ [(pt, ?r)]"
      unfolding o using base by simp
    have D: "distinct (map fst (dict2 st)) \<longrightarrow> distinct (map fst (dict2 (state_of ?o)))"
      unfolding o using base by simp
    from R D N show ?thesis by blast
  next
    case False
    with ge have ne: "\<not> ends_page ?r" by blast
    note pe = process_listings_effect [of E n "the ls" ?st2]
    show ?thesis
    proof (cases "process_listings E n (the ls) ?st2")
      case (Running st3)
      with False g have o: "?o = Running st3" by (auto simp: Let_def)
      have R: "page_requests (log (state_of ?o)) = page_requests (log st) @ [(pt, ?r)]"
        unfolding o using pe Running base by simp
      have D: "distinct (map fst (dict2 st)) \<longrightarrow> distinct (map fst (dict2 (state_of ?o)))"
        unfolding o using pe Running base by simp
      from R D N show ?thesis by blast
    next
      case (Raised e st3)
      with False g have o: "?o = Raised e st3" by (auto simp: Let_def)
      have R: "page_requests (log (state_of ?o)) = page_requests (log st) @ [(pt, ?r)]"
        unfolding o using pe Raised base by simp
      have D: "distinct (map fst (dict2 st)) \<longrightarrow> distinct (map fst (dict2 (state_of ?o)))"
        unfolding o using pe Raised base by simp
      from R D N show ?thesis by blast
    next
      case (Returned u st3)
      with False g have o: "?o = page_loop E n m pt (Suc p) st3"
        by (auto simp: Let_def)
      have l3: "page_requests (log st3) = page_requests (log st) @ [(pt, ?r)]"
        and d3: "distinct (map fst (dict2 st)) \<longrightarrow> distinct (map fst (dict2 st3))"
        using pe Returned base by simp_all
      from Suc.IH [of "Suc p" st3] obtain X where X:
        "page_requests (log (state_of (page_loop E n m pt (Suc p) st3))) =
           page_requests (log st3) @ X"
        "no_request_after_end X" "set (map fst X) \<subseteq> {pt}"
        and d: "distinct (map fst (dict2 st3)) \<longrightarrow>
          distinct (map fst (dict2 (state_of (page_loop E n m pt (Suc p) st3))))"
        by blast
      have R: "page_requests (log (state_of ?o)) = page_requests (log st) @ ((pt, ?r) # X)"
        unfolding o using X(1) l3 by simp
      have N': "no_request_after_end ((pt, ?r) # X)" using ne X(2) by simp
      have S: "set (map fst ((pt, ?r) # X)) \<subseteq> {pt}" using X(3) by simp
      have D: "distinct (map fst (dict2 st)) \<longrightarrow> distinct (map fst (dict2 (state_of ?o)))"
        unfolding o using d d3 by blast
      from R N' S D show ?thesis by blast
    qed
  qed
qed

lemma types_loop_effect:
  "distinct pts \<Longrightarrow>
   (\<exists>X. page_requests (log (state_of (types_loop E n pts st))) = page_requests (log st) @ X \<and>
        no_request_after_end X \<and> set (map fst X) \<subseteq> set pts) \<and>
   (distinct (map fst (dict2 st)) \<longrightarrow>
      distinct (map fst (dict2 (state_of (types_loop E n pts st)))))"
proof (induction pts arbitrary: st)
  case Nil
  then show ?case by simp
next
  case (Cons pt pts)
  from page_loop_effect [of E n n pt 1 st] obtain X where X:
    "page_requests (log (state_of (page_loop E n n pt 1 st))) = page_requests (log st) @ X"
    "no_request_after_end X" "set (map fst X) \<subseteq> {pt}"
    and d: "distinct (map fst (dict2 st)) \<longrightarrow>
      distinct (map fst (dict2 (state_of (page_loop E n n pt 1 st))))"
    by blast
  show ?case
  proof (cases "page_loop E n n pt 1 st")
    case (Running st1)
    with X d show ?thesis by auto
  next
    case (Raised e st1)
    with X d show ?thesis by auto
  next
    case (Returned u st1)
    from Cons.prems have dp: "distinct pts" and np: "pt \<notin> set pts" by simp_all
    from Cons.IH [OF dp, of st1] obtain Y where Y:
      "page_requests (log (state_of (types_loop E n pts st1))) = page_requests (log st1) @ Y"
      "no_request_after_end Y" "set (map fst Y) \<subseteq> set pts"
      and d': "distinct (map fst (dict2 st1)) \<longrightarrow>
        distinct (map fst (dict2 (state_of (types_loop E n pts st1))))"
      by blast
    have o: "types_loop E n (pt # pts) st = types_loop E n pts st1"
      using Returned by simp
    have "page_requests (log (state_of (types_loop E n (pt # pts) st))) =
        page_requests (log st) @ (X @ Y)"
      using o X(1) Y(1) Returned by simp
    moreover have "no_request_after_end (X @ Y)"
      using X(2,3) Y(2,3) np by (auto simp: no_request_after_end_append)
    moreover have "set (map fst (X @ Y)) \<subseteq> set (pt # pts)"
      using X(3) Y(3) by auto
    moreover have "distinct (map fst (dict2 st)) \<longrightarrow>
        distinct (map fst (dict2 (state_of (types_loop E n (pt # pts) st))))"
      using o d d' Returned by simp
    ultimately show ?thesis by blast
  qed
qed

lemma distinct_property_types: "distinct property_types"
  by (simp add: property_types_def)

lemma main_try_effect:
  "no_request_after_end (page_requests (log (state_of (main_try E n)))) \<and>
   distinct (map fst (dict2 (state_of (main_try E n))))"
proof -
  let ?s = "initial_state :: 'a state"
  from types_loop_effect [OF distinct_property_types, of E n ?s] obtain X where X:
    "page_requests (log (state_of (types_loop E n property_types ?s))) = X"
    "no_request_after_end X"
    and d: "distinct (map fst (dict2 (state_of (types_loop E n property_types ?s))))"
    by (auto simp: initial_state_def)
  show ?thesis
  proof (cases "types_loop E n property_types ?s")
    case (Running st)
    with X d show ?thesis by (simp add: main_try_def)
  next
    case (Raised e st)
    with X d show ?thesis by (simp add: main_try_def)
  next
    case (Returned u st)
    with X d show ?thesis
      by (cases "clean_property_data E (dict2 st) (today E)") (simp_all add: main_try_def)
  qed
qed

lemma main_effect:
  "no_request_after_end (page_requests (log (state_of (main E n)))) \<and>
   distinct (map fst (dict2 (state_of (main E n))))"
  using main_try_effect [of E n]
  by (cases "main_try E n") (simp_all add: main_def)

lemma main_all_pages_empty:
  "main_try example_env 1 =
     Raised ValueError \<lparr>dict2 = [], clock = 7, log = butlast example_empty_run_log\<rparr> \<and>
   main example_env 1 =
     Raised (NameError ''send_discord_notification'')
       \<lparr>dict2 = [], clock = 7, log = example_empty_run_log\<rparr>"
  by (simp add: main_def main_try_def property_types_def initial_state_def
      get_page_listings_def example_env_def emit_def Let_def clean_property_data_def
      pd_concat_def bind_def example_empty_run_log_def)

lemma Post_in_page_requests:
  "Post pt p r \<in> set evs \<Longrightarrow> (pt, r) \<in> set (page_requests evs)"
  by (induction evs rule: page_requests.induct) auto

lemma page_loop_stops:
  assumes "ends_page (search_reply E (clock st) pt p)"
  shows "\<exists>st'. page_loop E n (Suc m) pt p st = Returned () st' \<and>
           page_requests (log st') =
             page_requests (log st) @ [(pt, search_reply E (clock st) pt p)]"
proof -
  obtain ls st1 where g: "get_page_listings E p pt st = (ls, st1)"
    by (cases "get_page_listings E p pt st")
  from get_page_listings_effect [OF g] assms
  have e: "ls = None \<or> ls = Some []"
    and l: "page_requests (log st1) =
      page_requests (log st) @ [(pt, search_reply E (clock st) pt p)]"
    by simp_all
  from g e have "page_loop E n (Suc m) pt p st =
      Returned () (emit [Print_text ''Completed.''] (emit [Print_page p] st1))"
    by (auto simp: Let_def)
  with l show ?thesis by simp
qed

text \<open>
  C7. In the log of \<open>main\<close>, whatever the bound and however the run ends or hangs, a
  search request whose reply ended the pagination (an empty list, a null, or an
  exception, which \<open>get_page_listings\<close> turns into \<open>None\<close>) is followed by no search
  request for the same property type; and the page loop returns right after such a reply.
\<close>

theorem pagination_stops:
  fixes E :: "'f env"
  shows
  "(\<forall>pre post pt p r. log (state_of (main E n)) = pre @ Post pt p r # post \<and> ends_page r \<longrightarrow>
      (\<forall>p' r'. Post pt p' r' \<notin> set post)) \<and>
   (\<forall>p pt st. (fst (get_page_listings E p pt st) = None \<or>
               fst (get_page_listings E p pt st) = Some []) \<longleftrightarrow>
              ends_page (search_reply E (clock st) pt p)) \<and>
   (\<forall>m p pt st. ends_page (search_reply E (clock st) pt p) \<longrightarrow>
      (\<exists>st'. page_loop E n (Suc m) pt p st = Returned () st' \<and>
         page_requests (log st') =
           page_requests (log st) @ [(pt, search_reply E (clock st) pt p)]))"
proof (intro conjI allI impI)
  fix pre post pt p r p' r'
  assume a: "log (state_of (main E n)) = pre @ Post pt p r # post \<and> ends_page r"
  have "no_request_after_end (page_requests (log (state_of (main E n))))"
    using main_effect [of E n] by blast
  with a have "no_request_after_end (page_requests pre @ (pt, r) # page_requests post)"
    by simp
  then have "no_request_after_end ((pt, r) # page_requests post)"
    by (simp add: no_request_after_end_append)
  with a have "pt \<notin> set (map fst (page_requests post))" by simp
  then show "Post pt p' r' \<notin> set post"
    using Post_in_page_requests [of pt p' r' post] by force
next
  fix p pt and st :: "'f state"
  obtain ls st1 where g: "get_page_listings E p pt st = (ls, st1)"
    by (cases "get_page_listings E p pt st")
  from get_page_listings_effect [OF g] g
  show "(fst (get_page_listings E p pt st) = None \<or>
               fst (get_page_listings E p pt st) = Some []) \<longleftrightarrow>
              ends_page (search_reply E (clock st) pt p)"
    by simp
next
  fix m p pt and st :: "'f state"
  assume "ends_page (search_reply E (clock st) pt p)"
  then show "\<exists>st'. page_loop E n (Suc m) pt p st = Returned () st' \<and>
         page_requests (log st') =
           page_requests (log st) @ [(pt, search_reply E (clock st) pt p)]"
    by (rule page_loop_stops)
qed

theorem pagination_stops_witness:
  "log (state_of (main example_env 1)) =
     [] @ Post ''farms_land'' 1 (Inr (Some [])) # tl example_empty_run_log \<and>
   ends_page (Inr (Some []) :: exn + string listing list option) \<and>
   (\<forall>p' r'. Post ''farms_land'' p' r' \<notin> set (tl example_empty_run_log))"
proof -
  have l: "log (state_of (main example_env 1)) =
     [] @ Post ''farms_land'' 1 (Inr (Some [])) # tl example_empty_run_log"
    using main_all_pages_empty by (simp add: example_empty_run_log_def)
  have e: "ends_page (Inr (Some []) :: exn + string listing list option)"
    by (simp add: ends_page_def)
  from pagination_stops [of example_env 1] l e
  have "\<forall>p' r'. Post ''farms_land'' p' r' \<notin> set (tl example_empty_run_log)"
    by blast
  with l e show ?thesis by blast
qed

text \<open>
  C9. When every search page is empty the dataset stays empty, \<open>pd.concat\<close> raises
  ValueError inside the \<open>try\<close> of \<open>main\<close>, the handler prints it, and the call of the
  undefined \<open>send_discord_notification\<close> raises NameError: \<open>main\<close> ends with that
  exception and the log ends with the printed ValueError; no notification is sent.
\<close>

theorem top_level_handler_raises:
  "main_try example_env 1 =
     Raised ValueError \<lparr>dict2 = [], clock = 7, log = butlast example_empty_run_log\<rparr> \<and>
   main example_env 1 =
     Raised (NameError ''send_discord_notification'')
       \<lparr>dict2 = [], clock = 7, log = example_empty_run_log\<rparr> \<and>
   last example_empty_run_log = Print_exn ValueError"
  using main_all_pages_empty by (simp add: example_empty_run_log_def)

lemma main_never_notifies:
  "main E n = Raised e st \<Longrightarrow>
     e = NameError ''send_discord_notification'' \<and>
     (\<exists>e' st'. main_try E n = Raised e' st' \<and> st = emit [Print_exn e'] st')"
  by (cases "main_try E n") (auto simp: main_def)






lemma parse_listing_no_section:
  "features_section E text = None \<Longrightarrow> parse_listing E text d1 l ds = Inl AttributeError"
proof -
  assume a: "features_section E text = None"
  obtain p d oc where pc: "extract_postcode text = (p, d, oc)" by (cases "extract_postcode text")
  obtain lat lon where geo: "extract_geo E text = (lat, lon)" by (cases "extract_geo E text")
  show ?thesis
    using a by (simp add: parse_listing_def bind_def pc geo Let_def extract_description_def)
qed

lemma process_listings_append:
  "process_listings E n (pre @ ls) st =
     (case process_listings E n pre st of
        Returned u st' \<Rightarrow> process_listings E n ls st'
      | Raised e st' \<Rightarrow> Raised e st'
      | Running st' \<Rightarrow> Running st')"
proof (induction pre arbitrary: st)
  case Nil
  then show ?case by simp
next
  case (Cons l pre)
  show ?case
  proof (cases "request_listing_data E n l st")
    case (Running st1)
    then show ?thesis by simp
  next
    case (Raised e st1)
    then show ?thesis by simp
  next
    case (Returned x st1)
    obtain response dict1 where x: "x = (response, dict1)" by (cases x)
    show ?thesis
      using Returned x Cons.IH
      by (cases "parse_listing E (snd response) dict1 l (dict2 st1)") simp_all
  qed
qed

lemma example_abort_fetch:
  "get_page_listings example_env_no_section 1 ''farms_land'' initial_state =
     (Some [example_listing, example_listing_b],
      \<lparr>dict2 = [], clock = 1,
       log = [Post ''farms_land'' 1 (Inr (Some [example_listing, example_listing_b]))]\<rparr>) \<and>
   request_listing_data example_env_no_section 1 example_listing
     (emit [Print_page 1]
       \<lparr>dict2 = [], clock = 1,
        log = [Post ''farms_land'' 1 (Inr (Some [example_listing, example_listing_b]))]\<rparr>) =
     Returned ((200, example_payload), initial_dict1 example_listing) example_abort_state"
  by code_simp

lemma example_abort_run:
  "main example_env_no_section 1 =
     Raised (NameError ''send_discord_notification'')
       (emit [Print_exn AttributeError] example_abort_state)"
  by code_simp

text \<open>
  C4 (as amended). When the markup holds no features section, \<open>parse_listing\<close> raises
  AttributeError and nothing in it catches that. The exception leaves the listing loop at
  once, whatever listings remain, then the page loop, the loop over the property types
  and the \<open>try\<close> of \<open>main\<close>, each in the state reached when it was raised: no later
  listing, page or property type is touched and \<open>clean_property_data\<close> is not run.
  The handler of \<open>main\<close> prints it and the run ends.
\<close>

theorem description_failure_aborts_run:
  fixes E :: "'f env"
  shows
  "(\<forall>body d1 l ds. features_section E body = None \<longrightarrow>
      parse_listing E body d1 l ds = Inl AttributeError) \<and>
   (\<forall>pre l ls st sta r d1 st1.
      process_listings E n pre st = Returned () sta \<and>
      request_listing_data E n l sta = Returned (r, d1) st1 \<and>
      features_section E (snd r) = None \<longrightarrow>
      process_listings E n (pre @ l # ls) st = Raised AttributeError st1) \<and>
   (\<forall>m pt p st ls st1 e st'.
      get_page_listings E p pt st = (Some ls, st1) \<and> ls \<noteq> [] \<and>
      process_listings E n ls (emit [Print_page p] st1) = Raised e st' \<longrightarrow>
      page_loop E n (Suc m) pt p st = Raised e st') \<and>
   (\<forall>m pt p st ls st1 st3 e st'.
      get_page_listings E p pt st = (Some ls, st1) \<and> ls \<noteq> [] \<and>
      process_listings E n ls (emit [Print_page p] st1) = Returned () st3 \<and>
      page_loop E n m pt (Suc p) st3 = Raised e st' \<longrightarrow>
      page_loop E n (Suc m) pt p st = Raised e st') \<and>
   (\<forall>pt rest st e st'. page_loop E n n pt 1 st = Raised e st' \<longrightarrow>
      types_loop E n (pt # rest) st = Raised e st') \<and>
   (\<forall>pt rest st st1 e st'.
      page_loop E n n pt 1 st = Returned () st1 \<and> types_loop E n rest st1 = Raised e st' \<longrightarrow>
      types_loop E n (pt # rest) st = Raised e st') \<and>
   (\<forall>e st'. types_loop E n property_types initial_state = Raised e st' \<longrightarrow>
      main_try E n = Raised e st' \<and>
      main E n = Raised (NameError ''send_discord_notification'') (emit [Print_exn e] st'))"
proof (intro conjI allI impI)
  fix body d1 l and ds :: "'f dataset"
  assume "features_section E body = None"
  then show "parse_listing E body d1 l ds = Inl AttributeError"
    by (rule parse_listing_no_section)
next
  fix pre l ls and st sta :: "'f state" and r d1 st1
  assume a: "process_listings E n pre st = Returned () sta \<and>
      request_listing_data E n l sta = Returned (r, d1) st1 \<and>
      features_section E (snd r) = None"
  then have "parse_listing E (snd r) d1 l (dict2 st1) = Inl AttributeError"
    using parse_listing_no_section by blast
  with a have "process_listings E n (l # ls) sta = Raised AttributeError st1" by simp
  with a show "process_listings E n (pre @ l # ls) st = Raised AttributeError st1"
    by (simp add: process_listings_append)
next
  fix m pt p and st :: "'f state" and ls st1 e st'
  assume "get_page_listings E p pt st = (Some ls, st1) \<and> ls \<noteq> [] \<and>
      process_listings E n ls (emit [Print_page p] st1) = Raised e st'"
  then show "page_loop E n (Suc m) pt p st = Raised e st'"
    by (simp add: Let_def)
next
  fix m pt p and st :: "'f state" and ls st1 st3 e st'
  assume "get_page_listings E p pt st = (Some ls, st1) \<and> ls \<noteq> [] \<and>
      process_listings E n ls (emit [Print_page p] st1) = Returned () st3 \<and>
      page_loop E n m pt (Suc p) st3 = Raised e st'"
  then show "page_loop E n (Suc m) pt p st = Raised e st'"
    by (simp add: Let_def)
next
  fix pt rest and st :: "'f state" and e st'
  assume "page_loop E n n pt 1 st = Raised e st'"
  then show "types_loop E n (pt # rest) st = Raised e st'" by simp
next
  fix pt rest and st :: "'f state" and st1 e st'
  assume "page_loop E n n pt 1 st = Returned () st1 \<and> types_loop E n rest st1 = Raised e st'"
  then show "types_loop E n (pt # rest) st = Raised e st'" by simp
next
  fix e and st' :: "'f state"
  assume a: "types_loop E n property_types initial_state = Raised e st'"
  then show "main_try E n = Raised e st'" by (simp add: main_try_def)
  with a show "main E n = Raised (NameError ''send_discord_notification'') (emit [Print_exn e] st')"
    by (simp add: main_def)
qed

theorem description_failure_aborts_run_witness:
  "features_section example_env_no_section example_payload = None \<and>
   process_listings example_env_no_section 1 [] (emit [Print_page 1]
       \<lparr>dict2 = [], clock = 1,
        log = [Post ''farms_land'' 1 (Inr (Some [example_listing, example_listing_b]))]\<rparr>) =
     Returned () (emit [Print_page 1]
       \<lparr>dict2 = [], clock = 1,
        log = [Post ''farms_land'' 1 (Inr (Some [example_listing, example_listing_b]))]\<rparr>) \<and>
   process_listings example_env_no_section 1 ([] @ example_listing # [example_listing_b])
     (emit [Print_page 1]
       \<lparr>dict2 = [], clock = 1,
        log = [Post ''farms_land'' 1 (Inr (Some [example_listing, example_listing_b]))]\<rparr>) =
     Raised AttributeError example_abort_state \<and>
   page_loop example_env_no_section 1 (Suc 0) ''farms_land'' 1 initial_state =
     Raised AttributeError example_abort_state \<and>
   types_loop example_env_no_section 1 property_types initial_state =
     Raised AttributeError example_abort_state \<and>
   main example_env_no_section 1 =
     Raised (NameError ''send_discord_notification'')
       (emit [Print_exn AttributeError] example_abort_state)"
proof -
  let ?E = "example_env_no_section"
  let ?s1 = "\<lparr>dict2 = [], clock = 1,
        log = [Post ''farms_land'' 1 (Inr (Some [example_listing, example_listing_b]))]\<rparr>
        :: string state"
  note t = description_failure_aborts_run [of ?E 1]
  have h1: "features_section ?E example_payload = None"
    by (simp add: example_env_no_section_def example_env_def)
  have h2: "process_listings ?E 1 [] (emit [Print_page 1] ?s1) =
      Returned () (emit [Print_page 1] ?s1)"
    by simp
  have h3: "request_listing_data ?E 1 example_listing (emit [Print_page 1] ?s1) =
      Returned ((200, example_payload), initial_dict1 example_listing) example_abort_state"
    using example_abort_fetch by blast
  have h4: "get_page_listings ?E 1 ''farms_land'' initial_state =
      (Some [example_listing, example_listing_b], ?s1)"
    using example_abort_fetch by blast
  note t2 = t [THEN conjunct2, THEN conjunct1, rule_format]
  have h1': "features_section ?E (snd (200 :: int, example_payload)) = None"
    using h1 by simp
  have c2: "process_listings ?E 1 ([] @ example_listing # [example_listing_b])
      (emit [Print_page 1] ?s1) = Raised AttributeError example_abort_state"
    by (rule t2 [OF conjI [OF h2 conjI [OF h3 h1']]])
  then have c2': "process_listings ?E 1 [example_listing, example_listing_b]
      (emit [Print_page 1] ?s1) = Raised AttributeError example_abort_state"
    by simp
  have ne: "[example_listing, example_listing_b] \<noteq> []" by simp
  note t3 = t [THEN conjunct2, THEN conjunct2, THEN conjunct1, rule_format]
  have c3: "page_loop ?E 1 (Suc 0) ''farms_land'' 1 initial_state =
      Raised AttributeError example_abort_state"
    by (rule t3 [OF conjI [OF h4 conjI [OF ne c2']]])
  have pt: "property_types = ''farms_land'' # tl property_types"
    by (simp add: property_types_def)
  note t5 = t [THEN conjunct2, THEN conjunct2, THEN conjunct2, THEN conjunct2,
      THEN conjunct1, rule_format]
  have c3': "page_loop ?E 1 1 ''farms_land'' 1 initial_state =
      Raised AttributeError example_abort_state"
    using c3 by simp
  have c5: "types_loop ?E 1 property_types initial_state =
      Raised AttributeError example_abort_state"
    using t5 [OF c3', of "tl property_types"] pt by simp
  note t7 = t [THEN conjunct2, THEN conjunct2, THEN conjunct2, THEN conjunct2,
      THEN conjunct2, THEN conjunct2, rule_format]
  have c7: "main ?E 1 = Raised (NameError ''send_discord_notification'')
       (emit [Print_exn AttributeError] example_abort_state)"
    using t7 [OF c5] by blast
  from h1 h2 c2 c3 c5 c7 show ?thesis by blast
qed

text \<open>
  C4 as stated fails: with two listings on a page and no features section in the first
  one's markup, the run ends there. The second listing is never fetched, the dataset is
  empty and no table is written.
\<close>

theorem description_failure_stops_later_listings:
  "search_reply example_env_no_section 0 ''farms_land'' 1 =
     Inr (Some [example_listing, example_listing_b]) \<and>
   features_section example_env_no_section example_payload = None \<and>
   main example_env_no_section 1 =
     Raised (NameError ''send_discord_notification'')
       \<lparr>dict2 = [], clock = 2,
        log = [Post ''farms_land'' 1 (Inr (Some [example_listing, example_listing_b])),
               Print_page 1,
               Get (StrV ''https://www.zoopla.co.uk/for-sale/details/61234567/'')
                 (Responds 200 example_payload),
               Print_status 200,
               Print_exn AttributeError]\<rparr>"
  using example_abort_run
  by (simp add: example_env_no_section_def example_env_def example_abort_state_def emit_def)

end
